theory Spec2Isabelle
  imports Main "HOL-Library.AList" "HOL-Library.List_Lexorder" "HOL-Library.Char_ord"
begin

section \<open>Python values, exceptions and the request event\<close>

text \<open>
  The three request handlers of the repository
  (\<^verbatim>\<open>lambda-functions/instances/lambda_function.py\<close>, \<^verbatim>\<open>src/lambda/instances.py\<close> and
  \<^verbatim>\<open>src/lambda/models.py\<close>) are embedded as functions over an explicit \<open>world\<close>: the
  process environment, the DynamoDB tables, the replies of the external services and the
  list of mutating service calls issued so far. Every \<^verbatim>\<open>raise\<close> of the source is an
  \<open>Inl\<close> branch, every \<^verbatim>\<open>try/except\<close> a case distinction on it.

  Names that occur in more than one module carry the module as a suffix:
  \<open>_lf\<close> for \<^verbatim>\<open>lambda_function.py\<close>, \<open>_inst\<close> for \<^verbatim>\<open>instances.py\<close>, \<open>_mod\<close> for
  \<^verbatim>\<open>models.py\<close>.
\<close>

text \<open>
  Dynamic Python values as they occur in request bodies, in DynamoDB items and in response
  bodies. \<^verbatim>\<open>json.loads\<close> reads a JSON number without fraction or exponent as an \<^verbatim>\<open>int\<close>
  and any other JSON number as a \<^verbatim>\<open>float\<close>; \<open>PFloat m e\<close> is the float \<open>m * 2 ^ e\<close>
  (the non-finite floats are left out). The boto3 resource layer returns every DynamoDB
  number as a \<^verbatim>\<open>decimal.Decimal\<close> (\<open>PDecimal\<close>, whole numbers only), which
  \<^verbatim>\<open>json.dumps\<close> refuses.
\<close>

datatype py =
    PNone
  | PBool bool
  | PInt int
  | PFloat int int
  | PDecimal int
  | PStr string
  | PList "py list"
  | PDict "(string \<times> py) list"

type_synonym item = "(string \<times> py) list"

datatype exn =
    KeyError string
  | IndexError string
  | TypeError string
  | AttributeError string
  | ValueError string
  | ClientError string
  | ResourceNotFoundException string
  | Exception string

text \<open>\<^verbatim>\<open>str(e)\<close>: a \<^verbatim>\<open>KeyError\<close> prints the repr of its key.\<close>

fun str_exn :: "exn \<Rightarrow> string" where
  "str_exn (KeyError k) = [CHR 0x27] @ k @ [CHR 0x27]"
| "str_exn (IndexError m) = m"
| "str_exn (TypeError m) = m"
| "str_exn (AttributeError m) = m"
| "str_exn (ValueError m) = m"
| "str_exn (ClientError m) = m"
| "str_exn (ResourceNotFoundException m) = m"
| "str_exn (Exception m) = m"

text \<open>Truthiness of a value (\<^verbatim>\<open>if x:\<close>, \<^verbatim>\<open>not x\<close>).\<close>

fun truthy :: "py \<Rightarrow> bool" where
  "truthy PNone = False"
| "truthy (PBool b) = b"
| "truthy (PInt n) = (n \<noteq> 0)"
| "truthy (PFloat m e) = (m \<noteq> 0)"
| "truthy (PDecimal n) = (n \<noteq> 0)"
| "truthy (PStr s) = (s \<noteq> [])"
| "truthy (PList xs) = (xs \<noteq> [])"
| "truthy (PDict kvs) = (kvs \<noteq> [])"

text \<open>A Python \<^verbatim>\<open>str\<close> or \<^verbatim>\<open>None\<close> as a value.\<close>

definition py_of_str_opt :: "string option \<Rightarrow> py" where
  "py_of_str_opt s = (case s of None \<Rightarrow> PNone | Some t \<Rightarrow> PStr t)"

text \<open>\<^verbatim>\<open>v == s\<close> for a value \<open>v\<close> and a Python \<^verbatim>\<open>str\<close> or \<^verbatim>\<open>None\<close> \<open>s\<close>.\<close>

definition py_eq_str :: "py \<Rightarrow> string option \<Rightarrow> bool" where
  "py_eq_str v s = (v = py_of_str_opt s)"

text \<open>\<^verbatim>\<open>d[k]\<close>, \<^verbatim>\<open>d.get(k)\<close> and \<^verbatim>\<open>d.get(k, default)\<close> on a dictionary.\<close>

definition dict_item :: "(string \<times> 'v) list \<Rightarrow> string \<Rightarrow> exn + 'v" where
  "dict_item d k = (case map_of d k of None \<Rightarrow> Inl (KeyError k) | Some v \<Rightarrow> Inr v)"

definition dict_get :: "item \<Rightarrow> string \<Rightarrow> py" where
  "dict_get d k = (case map_of d k of None \<Rightarrow> PNone | Some v \<Rightarrow> v)"

definition dict_get_default :: "(string \<times> 'v) list \<Rightarrow> string \<Rightarrow> 'v \<Rightarrow> 'v" where
  "dict_get_default d k dflt = (case map_of d k of None \<Rightarrow> dflt | Some v \<Rightarrow> v)"

text \<open>
  \<^verbatim>\<open>d.get(k, default)\<close> on a dictionary whose keys are strings, for a key \<open>k\<close> that is any
  value: the lookup hashes the key first, and a list or a dictionary is unhashable
  (\<^verbatim>\<open>TypeError\<close>); a hashable key that is not a string equals no key of \<open>d\<close>.
\<close>

fun hashable :: "py \<Rightarrow> bool" where
  "hashable (PList xs) = False"
| "hashable (PDict kvs) = False"
| "hashable v = True"

fun unhashable_type :: "py \<Rightarrow> exn" where
  "unhashable_type (PDict kvs) = TypeError (''unhashable type: '' @ [CHR 0x27] @ ''dict'' @ [CHR 0x27])"
| "unhashable_type v = TypeError (''unhashable type: '' @ [CHR 0x27] @ ''list'' @ [CHR 0x27])"

definition dict_get_value :: "(string \<times> 'v) list \<Rightarrow> py \<Rightarrow> 'v \<Rightarrow> exn + 'v" where
  "dict_get_value d k dflt =
     (if \<not> hashable k then Inl (unhashable_type k)
      else (case k of PStr s \<Rightarrow> Inr (dict_get_default d s dflt) | other \<Rightarrow> Inr dflt))"

text \<open>
  \<^verbatim>\<open>str(n)\<close> for an integer, and \<^verbatim>\<open>str(v)\<close> as an f-string prints a value. The text of a
  float, a list or a dictionary is not modelled: the sources print a value only where it is
  a string or a number read from the store.
\<close>

fun show_nat :: "nat \<Rightarrow> string" where
  "show_nat n = (if n < 10 then [char_of (48 + n)] else show_nat (n div 10) @ [char_of (48 + n mod 10)])"

definition show_int :: "int \<Rightarrow> string" where
  "show_int i = (if i < 0 then CHR ''-'' # show_nat (nat (- i)) else show_nat (nat i))"

fun py_str :: "py \<Rightarrow> string" where
  "py_str PNone = ''None''"
| "py_str (PBool b) = (if b then ''True'' else ''False'')"
| "py_str (PInt n) = show_int n"
| "py_str (PFloat m e) = ''...''"
| "py_str (PDecimal n) = show_int n"
| "py_str (PStr s) = s"
| "py_str (PList xs) = ''[...]''"
| "py_str (PDict kvs) = ''{...}''"

text \<open>\<^verbatim>\<open>s.split(c)\<close>, \<^verbatim>\<open>s.count(c)\<close>, \<^verbatim>\<open>s.startswith(p)\<close>, \<^verbatim>\<open>s.endswith(p)\<close>.\<close>

fun split :: "char \<Rightarrow> string \<Rightarrow> string list" where
  "split c [] = [[]]"
| "split c (x # xs) =
     (if x = c then [] # split c xs
      else (case split c xs of [] \<Rightarrow> [[x]] | y # ys \<Rightarrow> (x # y) # ys))"

definition count :: "string \<Rightarrow> char \<Rightarrow> nat" where
  "count s c = length (filter (\<lambda>x. x = c) s)"

definition startswith :: "string \<Rightarrow> string \<Rightarrow> bool" where
  "startswith s p = (take (length p) s = p)"

definition endswith :: "string \<Rightarrow> string \<Rightarrow> bool" where
  "endswith s p = (length p \<le> length s \<and> drop (length s - length p) s = p)"

text \<open>\<^verbatim>\<open>xs[-1]\<close> and \<^verbatim>\<open>xs[-2]\<close>; out of range raises \<^verbatim>\<open>IndexError\<close>.\<close>

definition index_from_end :: "'a list \<Rightarrow> nat \<Rightarrow> exn + 'a" where
  "index_from_end xs n =
     (if 0 < n \<and> n \<le> length xs then Inr (xs ! (length xs - n))
      else Inl (IndexError ''list index out of range''))"

text \<open>
  \<^verbatim>\<open>xs.sort(key=f, reverse=True)\<close>: a stable sort, descending. CPython reverses the list,
  sorts it (stably) ascending and reverses the result, so equal keys keep their order.
\<close>

definition sort_reverse :: "('a \<Rightarrow> 'k::linorder) \<Rightarrow> 'a list \<Rightarrow> 'a list" where
  "sort_reverse f xs = rev (sort_key f (rev xs))"

text \<open>
  The request event of the API gateway, typed: method and path may be absent (the handlers
  index them), \<open>claims\<close> is the value of
  \<^verbatim>\<open>event.get('requestContext', {}).get('authorizer', {}).get('claims', {})\<close> (empty when a
  level is absent), and \<open>json_body\<close> is the outcome of \<^verbatim>\<open>json.loads(event['body'])\<close> and
  of the first \<^verbatim>\<open>body.get\<close>: the parsed object with its fields, which are JSON values of
  any kind, or the exception raised when the key \<^verbatim>\<open>'body'\<close> is absent, the text is not
  JSON, or the value parsed is not an object. The claims of the token are strings.
\<close>

record event =
  httpMethod :: "string option"
  path :: "string option"
  claims :: "(string \<times> string) list"
  json_body :: "exn + item"

record user_info =
  user_id :: "string option"
  email :: "string option"
  username :: "string option"
  groups :: "string list"

record response =
  statusCode :: int
  headers :: "(string \<times> string) list"
  body :: "py option"

section \<open>The world: environment, document store, external services\<close>

datatype ddb_op = GetItem | PutItem | UpdateItem | DeleteItem | Scan | Query

text \<open>
  A DynamoDB table: the name of its partition-key attribute (a string attribute in every
  table of the repository) and its items. An item is found by the value of that attribute,
  and the writes keep at most one item per key. The order of the rows is the order of a scan.
\<close>

record table =
  key_name :: string
  rows :: "item list"

record ecs_service =
  serviceArn :: "string option"
  taskDefinition :: "string option"
  status :: "string option"
  desiredCount :: "int option"
  runningCount :: "int option"
  pendingCount :: "int option"
  platformVersion :: "string option"
  launchType :: "string option"
  createdAt :: "string option"

record log_event =
  timestamp :: int
  message :: string

text \<open>The mutating calls to the orchestration service and the load balancer, with their keyword arguments.\<close>

datatype aws_call =
    RunTask py
  | StopTask py
  | RegisterTaskDefinition py
  | CreateService py
  | UpdateService py
  | DeleteService py
  | CreateTargetGroup py
  | DeleteTargetGroup py

text \<open>
  \<open>ddb_fault\<close> injects a failure of the store (throttling, network, permissions): when it
  is \<open>Some e\<close> for an operation on a table, that operation raises \<open>e\<close>. The fields
  \<open>ecs_\<close>, \<open>elbv2_\<close> and \<open>logs_\<close> are the replies of the external services, which the
  repository treats as opaque: an exception or the part of the reply the code reads
  (a call whose outcome the code only logs has no reply field).
  \<open>now_iso\<close> is \<^verbatim>\<open>datetime.now(timezone.utc).isoformat()\<close>, \<open>now_timestamp\<close> its
  \<^verbatim>\<open>timestamp()\<close> in whole seconds, \<open>uuid4\<close> is \<^verbatim>\<open>str(uuid.uuid4())\<close>; within one
  invocation each is read as one value. \<open>fromtimestamp_iso ms\<close> is the library call
  \<^verbatim>\<open>datetime.fromtimestamp(ms / 1000, timezone.utc).isoformat()\<close>, which raises outside
  the range of \<^verbatim>\<open>datetime\<close>.
\<close>

record world =
  environ :: "(string \<times> string) list"
  tables :: "(string \<times> table) list"
  ddb_fault :: "ddb_op \<Rightarrow> string \<Rightarrow> exn option"
  uuid4 :: string
  now_iso :: string
  now_timestamp :: int
  fromtimestamp_iso :: "int \<Rightarrow> exn + string"
  ecs_run_task :: "py \<Rightarrow> exn + string list"
  ecs_describe_tasks :: "string \<Rightarrow> py \<Rightarrow> exn + string option list"
  ecs_describe_services :: "string \<Rightarrow> py \<Rightarrow> exn + ecs_service list"
  ecs_register_task_definition :: "py \<Rightarrow> exn + string"
  ecs_create_service :: "py \<Rightarrow> exn + string"
  ecs_update_service :: "py \<Rightarrow> exn option"
  elbv2_create_target_group :: "py \<Rightarrow> exn + string list"
  logs_describe_log_streams :: "string \<Rightarrow> string \<Rightarrow> exn + string list"
  logs_missing_group_first :: bool
  logs_get_log_events :: "string \<Rightarrow> string \<Rightarrow> exn + log_event list"
  calls :: "aws_call list"

text \<open>
  \<^verbatim>\<open>logs_client.describe_log_streams\<close> for a log group, a stream-name prefix and an
  ordering. \<open>logs_describe_log_streams\<close> is what the log store holds for the group and the
  prefix: the names of the streams, or the exception of the listing, which is
  \<^verbatim>\<open>ResourceNotFoundException\<close> when the log group does not exist. The operation
  DescribeLogStreams does not accept \<^verbatim>\<open>logStreamNamePrefix\<close> together with
  \<^verbatim>\<open>orderBy='LastEventTime'\<close>: it refuses such a request with
  \<^verbatim>\<open>InvalidParameterException\<close>, a \<^verbatim>\<open>ClientError\<close> that is not a
  \<^verbatim>\<open>ResourceNotFoundException\<close>. Whether a missing log group is reported before the
  parameters are checked is left open (\<open>logs_missing_group_first\<close>).
\<close>

definition describe_log_streams :: "world \<Rightarrow> string \<Rightarrow> string \<Rightarrow> string \<Rightarrow> exn + string list" where
  "describe_log_streams w log_group_name log_stream_name_prefix order_by =
     (let listing = logs_describe_log_streams w log_group_name log_stream_name_prefix
      in if order_by = ''LastEventTime'' then
           (case listing of
              Inl (ResourceNotFoundException m) \<Rightarrow>
                if logs_missing_group_first w then Inl (ResourceNotFoundException m)
                else Inl (ClientError ''InvalidParameterException'')
            | other \<Rightarrow> Inl (ClientError ''InvalidParameterException''))
         else listing)"

text \<open>\<^verbatim>\<open>os.environ.get(k)\<close> and \<^verbatim>\<open>os.environ[k]\<close>.\<close>

definition environ_get :: "world \<Rightarrow> string \<Rightarrow> string option" where
  "environ_get w k = map_of (environ w) k"

definition environ_item :: "world \<Rightarrow> string \<Rightarrow> exn + string" where
  "environ_item w k = dict_item (environ w) k"

text \<open>A mutating service call is recorded when it is issued, whatever it returns.\<close>

definition issue :: "aws_call \<Rightarrow> world \<Rightarrow> world" where
  "issue c w = w\<lparr>calls := calls w @ [c]\<rparr>"

subsection \<open>The document store\<close>

text \<open>
  An operation on a table raises when a fault is injected or the table does not exist.
  Query and scan results are taken to fit in one page (the sources never paginate).
\<close>

definition ddb_table :: "world \<Rightarrow> ddb_op \<Rightarrow> string \<Rightarrow> exn + table" where
  "ddb_table w op tname =
     (case ddb_fault w op tname of
        Some e \<Rightarrow> Inl e
      | None \<Rightarrow>
          (case map_of (tables w) tname of
             None \<Rightarrow> Inl (ClientError ''ResourceNotFoundException'')
           | Some t \<Rightarrow> Inr t))"

text \<open>
  What the store keeps of a value: a Python \<^verbatim>\<open>int\<close> is read back as a \<^verbatim>\<open>Decimal\<close>. A
  value that holds a \<^verbatim>\<open>float\<close> is not \<open>storable\<close>: the boto3 serializer refuses it with
  \<^verbatim>\<open>TypeError\<close> before the request is sent.
\<close>

fun storable :: "py \<Rightarrow> bool" where
  "storable (PFloat m e) = False"
| "storable (PList xs) = list_all storable xs"
| "storable (PDict kvs) = list_all (\<lambda>kv. storable (snd kv)) kvs"
| "storable v = True"

definition float_not_supported :: exn where
  "float_not_supported = TypeError ''Float types are not supported. Use Decimal types instead.''"

fun stored :: "py \<Rightarrow> py" where
  "stored (PInt n) = PDecimal n"
| "stored (PList xs) = PList (map stored xs)"
| "stored (PDict kvs) = PDict (map (\<lambda>(k, v). (k, stored v)) kvs)"
| "stored v = v"

definition stored_item :: "item \<Rightarrow> item" where
  "stored_item it = map (\<lambda>(k, v). (k, stored v)) it"

definition set_table :: "string \<Rightarrow> table \<Rightarrow> world \<Rightarrow> world" where
  "set_table tname t w = w\<lparr>tables := AList.update tname t (tables w)\<rparr>"

definition has_key :: "table \<Rightarrow> string \<Rightarrow> item \<Rightarrow> bool" where
  "has_key t k it = (map_of it (key_name t) = Some (PStr k))"

text \<open>
  The key of \<^verbatim>\<open>table.get_item(Key={kattr: v})\<close> when \<open>v\<close> is a field of the request body.
  The key attribute is a string: the serializer refuses a value that holds a float, and the
  service refuses a key of any other type than string (\<^verbatim>\<open>ValidationException\<close>). Past
  this point the identifier is a string.
\<close>

definition table_key :: "py \<Rightarrow> exn + string" where
  "table_key v =
     (if \<not> storable v then Inl float_not_supported
      else (case v of
              PStr k \<Rightarrow> Inr k
            | other \<Rightarrow> Inl (ClientError ''ValidationException'')))"

text \<open>\<^verbatim>\<open>table.get_item(Key={kattr: k})\<close>: \<open>None\<close> when the reply has no \<^verbatim>\<open>'Item'\<close>.\<close>

definition get_item :: "world \<Rightarrow> string \<Rightarrow> string \<Rightarrow> string \<Rightarrow> exn + item option" where
  "get_item w tname kattr k =
     (case ddb_table w GetItem tname of
        Inl e \<Rightarrow> Inl e
      | Inr t \<Rightarrow>
          if key_name t \<noteq> kattr then Inl (ClientError ''ValidationException'')
          else Inr (find (has_key t k) (rows t)))"

text \<open>
  \<^verbatim>\<open>table.put_item(Item=it)\<close>: the values must be storable, and the item must carry the
  table's key as a string; it replaces the item of that key.
\<close>

definition put_item :: "string \<Rightarrow> item \<Rightarrow> world \<Rightarrow> exn + world" where
  "put_item tname it w =
     (if \<not> storable (PDict it) then Inl float_not_supported
      else
        (case ddb_table w PutItem tname of
           Inl e \<Rightarrow> Inl e
         | Inr t \<Rightarrow>
             (case map_of it (key_name t) of
                Some (PStr k) \<Rightarrow>
                  Inr (set_table tname
                         (t\<lparr>rows := filter (\<lambda>x. \<not> has_key t k x) (rows t) @ [stored_item it]\<rparr>) w)
              | _ \<Rightarrow> Inl (ClientError ''ValidationException''))))"

text \<open>
  \<^verbatim>\<open>table.update_item(Key={kattr: k}, UpdateExpression='SET ...')\<close>: sets the attributes of
  \<open>upd\<close> in the item of key \<open>k\<close>; DynamoDB creates the item when the key is new. The
  sources update with strings and with values read from the store, which hold no float.
\<close>

definition update_item :: "string \<Rightarrow> string \<Rightarrow> string \<Rightarrow> item \<Rightarrow> world \<Rightarrow> exn + world" where
  "update_item tname kattr k upd w =
     (case ddb_table w UpdateItem tname of
        Inl e \<Rightarrow> Inl e
      | Inr t \<Rightarrow>
          if key_name t \<noteq> kattr then Inl (ClientError ''ValidationException'')
          else
            (let old = (case find (has_key t k) (rows t) of None \<Rightarrow> [(kattr, PStr k)] | Some it \<Rightarrow> it);
                 new = fold (\<lambda>(a, v). AList.update a (stored v)) upd old
             in Inr (set_table tname
                       (t\<lparr>rows := filter (\<lambda>x. \<not> has_key t k x) (rows t) @ [new]\<rparr>) w)))"

definition delete_item :: "string \<Rightarrow> string \<Rightarrow> string \<Rightarrow> world \<Rightarrow> exn + world" where
  "delete_item tname kattr k w =
     (case ddb_table w DeleteItem tname of
        Inl e \<Rightarrow> Inl e
      | Inr t \<Rightarrow>
          if key_name t \<noteq> kattr then Inl (ClientError ''ValidationException'')
          else Inr (set_table tname (t\<lparr>rows := filter (\<lambda>x. \<not> has_key t k x) (rows t)\<rparr>) w))"

text \<open>\<^verbatim>\<open>table.scan()\<close> and \<^verbatim>\<open>table.scan(FilterExpression=...)\<close> with an equality on one attribute: the \<^verbatim>\<open>'Items'\<close>.\<close>

definition scan :: "world \<Rightarrow> string \<Rightarrow> exn + item list" where
  "scan w tname =
     (case ddb_table w Scan tname of
        Inl e \<Rightarrow> Inl e
      | Inr t \<Rightarrow> Inr (rows t))"

definition scan_attr_eq :: "world \<Rightarrow> string \<Rightarrow> string \<Rightarrow> py \<Rightarrow> exn + item list" where
  "scan_attr_eq w tname a v =
     (case ddb_table w Scan tname of
        Inl e \<Rightarrow> Inl e
      | Inr t \<Rightarrow> Inr (filter (\<lambda>it. map_of it a = Some v) (rows t)))"

text \<open>
  \<^verbatim>\<open>table.query(IndexName='UserIdIndex', KeyConditionExpression=Key('user_id').eq(uid))\<close>:
  the items whose \<^verbatim>\<open>user_id\<close> is the string \<open>uid\<close>; a key condition on \<^verbatim>\<open>None\<close> is
  refused by the service.
\<close>

definition query_user :: "world \<Rightarrow> string \<Rightarrow> string option \<Rightarrow> exn + item list" where
  "query_user w tname uid =
     (case ddb_table w Query tname of
        Inl e \<Rightarrow> Inl e
      | Inr t \<Rightarrow>
          (case uid of
             None \<Rightarrow> Inl (ClientError ''ValidationException'')
           | Some u \<Rightarrow> Inr (filter (\<lambda>it. map_of it ''user_id'' = Some (PStr u)) (rows t))))"

subsection \<open>Serialising a response body\<close>

text \<open>\<^verbatim>\<open>json.dumps(data)\<close> raises \<^verbatim>\<open>TypeError\<close> on a \<^verbatim>\<open>Decimal\<close>; the text it returns is not modelled, the body of a response is the value that was serialised.\<close>

fun serializable :: "py \<Rightarrow> bool" where
  "serializable (PDecimal n) = False"
| "serializable (PList xs) = list_all serializable xs"
| "serializable (PDict kvs) = list_all (\<lambda>kv. serializable (snd kv)) kvs"
| "serializable v = True"

definition json_dumps :: "py \<Rightarrow> exn + py" where
  "json_dumps data =
     (if serializable data then Inr data
      else Inl (TypeError ''Object of type Decimal is not JSON serializable''))"

section \<open>lambda-functions/instances/lambda_function.py\<close>

definition cors_headers :: "(string \<times> string) list" where
  "cors_headers =
     [(''Content-Type'', ''application/json''),
      (''Access-Control-Allow-Origin'', ''*''),
      (''Access-Control-Allow-Headers'', ''Content-Type,Authorization''),
      (''Access-Control-Allow-Methods'', ''GET,POST,DELETE,OPTIONS'')]"

text \<open>The response literals of this module: \<^verbatim>\<open>{'statusCode': c, 'headers': cors_headers(), 'body': json.dumps(d)}\<close> for a \<open>d\<close> that serialises.\<close>

definition response_lf :: "int \<Rightarrow> py \<Rightarrow> response" where
  "response_lf code data = \<lparr>statusCode = code, headers = cors_headers, body = Some data\<rparr>"

definition error_lf :: "int \<Rightarrow> string \<Rightarrow> response" where
  "error_lf code msg = response_lf code (PDict [(''error'', PStr msg)])"

definition failure_lf :: "string \<Rightarrow> exn \<Rightarrow> response" where
  "failure_lf msg e =
     response_lf 500 (PDict [(''error'', PStr msg), (''message'', PStr (str_exn e))])"

definition get_user_info_from_context_lf :: "event \<Rightarrow> user_info" where
  "get_user_info_from_context_lf ev =
     \<lparr>user_id = map_of (claims ev) ''sub'',
      email = map_of (claims ev) ''email'',
      username = map_of (claims ev) ''cognito:username'',
      groups =
        (case map_of (claims ev) ''cognito:groups'' of
           None \<Rightarrow> []
         | Some g \<Rightarrow> if g = [] then [] else split (CHR '','') g)\<rparr>"

text \<open>
  \<^verbatim>\<open>get_estimated_cost\<close>: \<^verbatim>\<open>cost_mapping.get(instance_type, '$0.00/hour')\<close>. Its argument
  is the field \<^verbatim>\<open>instanceType\<close> of the request body as it was parsed, a value of any kind.
\<close>

definition get_estimated_cost :: "py \<Rightarrow> exn + string" where
  "get_estimated_cost instance_type =
     (let cost_mapping =
        [(''ml.m5.large'', ''$0.12/hour''),
         (''ml.m5.xlarge'', ''$0.24/hour''),
         (''ml.m5.2xlarge'', ''$0.48/hour''),
         (''ml.g4dn.xlarge'', ''$0.71/hour''),
         (''ml.g4dn.2xlarge'', ''$1.42/hour''),
         (''ml.p3.2xlarge'', ''$3.06/hour'')]
      in dict_get_value cost_mapping instance_type ''$0.00/hour'')"

text \<open>
  The configuration dictionary of \<^verbatim>\<open>get_task_configuration\<close>; \<open>placement_constraints\<close> is
  \<open>None\<close> when the key is not set. The model identifier is the key under which the model
  was found in the catalog, a string; the instance type is the field of the request body, a
  value of any kind, which \<^verbatim>\<open>in\<close> compares with the strings of each list.
\<close>

record task_config =
  container_image :: "string option"
  launch_type :: string
  task_definition :: string
  placement_constraints :: "py list option"

definition gpu_instance_types :: "string list" where
  "gpu_instance_types = [''ml.g4dn.xlarge'', ''ml.g4dn.2xlarge'', ''ml.p3.2xlarge'']"

definition large_cpu_types :: "string list" where
  "large_cpu_types = [''ml.m5.2xlarge'', ''ml.m5.4xlarge'', ''ml.c5.4xlarge'']"

definition member_of_instance_type :: "py \<Rightarrow> py list" where
  "member_of_instance_type instance_type =
     [PDict [(''type'', PStr ''memberOf''),
             (''expression'', PStr (''attribute:ecs.instance-type == '' @ py_str instance_type))]]"

definition get_task_configuration :: "world \<Rightarrow> string \<Rightarrow> py \<Rightarrow> exn + task_config" where
  "get_task_configuration w model_id instance_type =
     (let model_images =
        [(''llama2:7b'', environ_get w ''LLAMA2_7B_IMAGE_URI''),
         (''llama2:13b'', environ_get w ''LLAMA2_13B_IMAGE_URI''),
         (''codellama:7b'', environ_get w ''CODELLAMA_7B_IMAGE_URI''),
         (''codellama:13b'', environ_get w ''CODELLAMA_13B_IMAGE_URI''),
         (''mistral:7b'', environ_get w ''MISTRAL_7B_IMAGE_URI'')]
      in case environ_item w ''CPU_TASK_DEFINITION_ARN'' of
           Inl e \<Rightarrow> Inl e
         | Inr cpu_arn \<Rightarrow>
             (let config =
                \<lparr>container_image = dict_get_default model_images model_id None,
                 launch_type = ''FARGATE'',
                 task_definition = cpu_arn,
                 placement_constraints = None\<rparr>
              in if instance_type \<in> set (map PStr gpu_instance_types) then
                   (case environ_item w ''GPU_TASK_DEFINITION_ARN'' of
                      Inl e \<Rightarrow> Inl e
                    | Inr gpu_arn \<Rightarrow>
                        Inr (config\<lparr>launch_type := ''EC2'',
                                    task_definition := gpu_arn,
                                    placement_constraints :=
                                      Some (member_of_instance_type instance_type)\<rparr>))
                 else if instance_type \<in> set (map PStr large_cpu_types) then
                   Inr (config\<lparr>launch_type := ''EC2'',
                               placement_constraints :=
                                 Some (member_of_instance_type instance_type)\<rparr>)
                 else Inr config))"

definition name_value :: "string \<Rightarrow> py \<Rightarrow> py" where
  "name_value n v = PDict [(''name'', PStr n), (''value'', v)]"

definition key_value :: "string \<Rightarrow> py \<Rightarrow> py" where
  "key_value k v = PDict [(''key'', PStr k), (''value'', v)]"

definition awsvpc_configuration :: "string \<Rightarrow> py \<Rightarrow> py" where
  "awsvpc_configuration subnets security_group =
     PDict [(''awsvpcConfiguration'',
       PDict [(''subnets'', PList (map PStr (split (CHR '','') subnets))),
              (''securityGroups'', PList [security_group]),
              (''assignPublicIp'', PStr ''DISABLED'')])]"

definition start_ecs_task ::
  "string \<Rightarrow> string \<Rightarrow> item \<Rightarrow> py \<Rightarrow> user_info \<Rightarrow> world \<Rightarrow> (exn + string) \<times> world" where
  "start_ecs_task instance_id model_id model_info instance_type user w =
     (case get_task_configuration w model_id instance_type of
        Inl e \<Rightarrow> (Inl e, w)
      | Inr task_config \<Rightarrow>
     (let container_overrides =
            [(''name'', PStr ''ollama''),
             (''environment'', PList
                [name_value ''OLLAMA_HOST'' (PStr ''0.0.0.0''),
                 name_value ''OLLAMA_ORIGINS'' (PStr ''*''),
                 name_value ''MODEL_NAME''
                   (dict_get_default model_info ''ollama_model_name'' (PStr model_id)),
                 name_value ''INSTANCE_ID'' (PStr instance_id),
                 name_value ''USER_ID'' (py_of_str_opt (user_id user)),
                 name_value ''PRELOAD_MODEL'' (PStr ''true'')])];
          container_overrides =
            (case container_image task_config of
               None \<Rightarrow> container_overrides
             | Some image_uri \<Rightarrow>
                 if image_uri = [] then container_overrides
                 else container_overrides @ [(''image'', PStr image_uri)])
      in case environ_item w ''ECS_CLUSTER_NAME'' of
           Inl e \<Rightarrow> (Inl e, w)
         | Inr cluster \<Rightarrow>
      (case environ_item w ''ENVIRONMENT'' of
           Inl e \<Rightarrow> (Inl e, w)
         | Inr environment \<Rightarrow>
      (let run_task_params =
             [(''cluster'', PStr cluster),
              (''taskDefinition'', PStr (task_definition task_config)),
              (''launchType'', PStr (launch_type task_config)),
              (''overrides'', PDict [(''containerOverrides'', PList [PDict container_overrides])]),
              (''tags'', PList
                 [key_value ''Environment'' (PStr environment),
                  key_value ''Project'' (PStr ''aws-ollama-platform''),
                  key_value ''InstanceId'' (PStr instance_id),
                  key_value ''UserId'' (py_of_str_opt (user_id user)),
                  key_value ''ModelId'' (PStr model_id)])]
       in case (if launch_type task_config = ''FARGATE'' then
                  (case environ_item w ''PRIVATE_SUBNET_IDS'' of
                     Inl e \<Rightarrow> Inl e
                   | Inr subnets \<Rightarrow>
                       (case environ_item w ''ECS_SECURITY_GROUP_ID'' of
                          Inl e \<Rightarrow> Inl e
                        | Inr sg \<Rightarrow>
                            Inr (run_task_params @
                              [(''networkConfiguration'', awsvpc_configuration subnets (PStr sg))])))
                else Inr run_task_params) of
            Inl e \<Rightarrow> (Inl e, w)
          | Inr run_task_params \<Rightarrow>
       (let run_task_params =
              (case placement_constraints task_config of
                 None \<Rightarrow> run_task_params
               | Some pcs \<Rightarrow>
                   if launch_type task_config = ''EC2'' \<and> pcs \<noteq> []
                   then run_task_params @ [(''placementConstraints'', PList pcs)]
                   else run_task_params);
            w1 = issue (RunTask (PDict run_task_params)) w
        in case ecs_run_task w (PDict run_task_params) of
             Inl e \<Rightarrow> (Inl e, w1)
           | Inr tasks \<Rightarrow>
               (case tasks of
                  [] \<Rightarrow> (Inl (Exception ''Failed to start ECS task''), w1)
                | task_arn # rest \<Rightarrow> (Inr task_arn, w1)))))))"

text \<open>
  The body of the \<^verbatim>\<open>try\<close> block of \<^verbatim>\<open>create_instance\<close>, and the function with its
  handler. The item is built after the task was started: \<^verbatim>\<open>model_info['name']\<close> and
  \<^verbatim>\<open>get_estimated_cost(instance_type)\<close> are evaluated there, and once more, with the same
  outcome, for the response.
\<close>

definition create_instance_try :: "event \<Rightarrow> user_info \<Rightarrow> world \<Rightarrow> (exn + response) \<times> world" where
  "create_instance_try ev user w =
     (case json_body ev of
        Inl e \<Rightarrow> (Inl e, w)
      | Inr b \<Rightarrow>
     (let model_id = dict_get b ''modelId'';
          instance_type = dict_get_default b ''instanceType'' (PStr ''ml.m5.large'')
      in if \<not> truthy model_id then (Inr (error_lf 400 ''modelId is required''), w)
         else
      (case environ_item w ''MODELS_TABLE_NAME'' of
         Inl e \<Rightarrow> (Inl e, w)
       | Inr models_table \<Rightarrow>
      (case table_key model_id of
         Inl e \<Rightarrow> (Inl e, w)
       | Inr model_id \<Rightarrow>
      (case get_item w models_table ''id'' model_id of
         Inl e \<Rightarrow> (Inl e, w)
       | Inr None \<Rightarrow> (Inr (error_lf 404 ''Model not found''), w)
       | Inr (Some model_info) \<Rightarrow>
      (let instance_id = uuid4 w
       in case start_ecs_task instance_id model_id model_info instance_type user w of
            (Inl e, w1) \<Rightarrow> (Inl e, w1)
          | (Inr task_arn, w1) \<Rightarrow>
      (case environ_item w1 ''INSTANCES_TABLE_NAME'' of
         Inl e \<Rightarrow> (Inl e, w1)
       | Inr instances_table \<Rightarrow>
      (case dict_item model_info ''name'' of
         Inl e \<Rightarrow> (Inl e, w1)
       | Inr model_name \<Rightarrow>
      (case get_estimated_cost instance_type of
         Inl e \<Rightarrow> (Inl e, w1)
       | Inr estimated_cost \<Rightarrow>
      (let endpoint =
             ''https://'' @ instance_id @ ''.'' @
             dict_get_default (environ w1) ''DOMAIN_NAME'' ''localhost'' @ ''/api'';
           instance_data =
             [(''id'', PStr instance_id),
              (''user_id'', py_of_str_opt (user_id user)),
              (''model_id'', PStr model_id),
              (''model_name'', model_name),
              (''status'', PStr ''starting''),
              (''instance_type'', instance_type),
              (''task_arn'', PStr task_arn),
              (''created_at'', PStr (now_iso w1)),
              (''updated_at'', PStr (now_iso w1)),
              (''estimated_cost'', PStr estimated_cost),
              (''endpoint'', PStr endpoint)]
       in case put_item instances_table instance_data w1 of
            Inl e \<Rightarrow> (Inl e, w1)
          | Inr w2 \<Rightarrow>
              (case json_dumps (PDict
                      [(''id'', PStr instance_id),
                       (''modelId'', PStr model_id),
                       (''modelName'', model_name),
                       (''status'', PStr ''starting''),
                       (''instanceType'', instance_type),
                       (''estimatedCost'', PStr estimated_cost),
                       (''endpoint'', PStr endpoint),
                       (''startedAt'', PStr (now_iso w1))]) of
                 Inl e \<Rightarrow> (Inl e, w2)
               | Inr data \<Rightarrow> (Inr (response_lf 201 data), w2))))))))))))"

definition create_instance :: "event \<Rightarrow> user_info \<Rightarrow> world \<Rightarrow> response \<times> world" where
  "create_instance ev user w =
     (case create_instance_try ev user w of
        (Inl e, w') \<Rightarrow> (failure_lf ''Failed to create instance'' e, w')
      | (Inr r, w') \<Rightarrow> (r, w'))"

text \<open>\<^verbatim>\<open>s.lower()\<close> on ASCII letters (the task states of the orchestration service are ASCII).\<close>

definition lower :: "string \<Rightarrow> string" where
  "lower s =
     map (\<lambda>c. if CHR ''A'' \<le> c \<and> c \<le> CHR ''Z'' then char_of (of_char c + (32::nat)) else c) s"

text \<open>\<open>ecs_describe_tasks\<close> replies with the \<^verbatim>\<open>lastStatus\<close> of each task of \<^verbatim>\<open>response['tasks']\<close>.\<close>

definition get_ecs_task_status :: "world \<Rightarrow> py \<Rightarrow> string" where
  "get_ecs_task_status w task_arn =
     (case environ_item w ''ECS_CLUSTER_NAME'' of
        Inl e \<Rightarrow> ''unknown''
      | Inr cluster \<Rightarrow>
          (case ecs_describe_tasks w cluster task_arn of
             Inl e \<Rightarrow> ''unknown''
           | Inr tasks \<Rightarrow>
               (case tasks of
                  [] \<Rightarrow> ''stopped''
                | task # rest \<Rightarrow>
                    (let last_status = lower (case task of None \<Rightarrow> [] | Some s \<Rightarrow> s);
                         status_mapping =
                           [(''pending'', ''starting''),
                            (''running'', ''running''),
                            (''stopping'', ''stopping''),
                            (''stopped'', ''stopped'')]
                     in dict_get_default status_mapping last_status ''unknown''))))"

text \<open>The permission check shared by every operation on one instance: \<^verbatim>\<open>instance['user_id'] != user_info['user_id'] and 'Administrators' not in user_info['groups']\<close>, given the value of \<^verbatim>\<open>instance['user_id']\<close>.\<close>

definition access_denied :: "py \<Rightarrow> user_info \<Rightarrow> bool" where
  "access_denied owner user =
     (\<not> py_eq_str owner (user_id user) \<and> ''Administrators'' \<notin> set (groups user))"

definition delete_instance_try :: "string \<Rightarrow> user_info \<Rightarrow> world \<Rightarrow> (exn + response) \<times> world" where
  "delete_instance_try instance_id user w =
     (case environ_item w ''INSTANCES_TABLE_NAME'' of
        Inl e \<Rightarrow> (Inl e, w)
      | Inr instances_table \<Rightarrow>
     (case get_item w instances_table ''id'' instance_id of
        Inl e \<Rightarrow> (Inl e, w)
      | Inr None \<Rightarrow> (Inr (error_lf 404 ''Instance not found''), w)
      | Inr (Some instance) \<Rightarrow>
     (case dict_item instance ''user_id'' of
        Inl e \<Rightarrow> (Inl e, w)
      | Inr owner \<Rightarrow>
          if access_denied owner user then (Inr (error_lf 403 ''Access denied''), w)
          else
            (let w1 =
               (if truthy (dict_get instance ''task_arn'') then
                  (case environ_item w ''ECS_CLUSTER_NAME'' of
                     Inl e \<Rightarrow> w
                   | Inr cluster \<Rightarrow>
                       issue (StopTask (PDict
                         [(''cluster'', PStr cluster),
                          (''task'', dict_get instance ''task_arn''),
                          (''reason'', PStr (''User requested deletion of instance '' @ instance_id))])) w)
                else w)
             in case delete_item instances_table ''id'' instance_id w1 of
                  Inl e \<Rightarrow> (Inl e, w1)
                | Inr w2 \<Rightarrow>
                    (Inr \<lparr>statusCode = 204, headers = cors_headers, body = None\<rparr>, w2)))))"

definition delete_instance :: "string \<Rightarrow> user_info \<Rightarrow> world \<Rightarrow> response \<times> world" where
  "delete_instance instance_id user w =
     (case delete_instance_try instance_id user w of
        (Inl e, w') \<Rightarrow> (failure_lf ''Failed to delete instance'' e, w')
      | (Inr r, w') \<Rightarrow> (r, w'))"

text \<open>A dictionary literal \<^verbatim>\<open>{out: item[key], ...}\<close>: the first absent key raises.\<close>

fun project :: "item \<Rightarrow> (string \<times> string) list \<Rightarrow> exn + item" where
  "project it [] = Inr []"
| "project it ((out, k) # ks) =
     (case dict_item it k of
        Inl e \<Rightarrow> Inl e
      | Inr v \<Rightarrow> (case project it ks of Inl e \<Rightarrow> Inl e | Inr r \<Rightarrow> Inr ((out, v) # r)))"

text \<open>A loop that builds a list and stops at the first exception.\<close>

fun map_exn :: "('a \<Rightarrow> exn + 'b) \<Rightarrow> 'a list \<Rightarrow> exn + 'b list" where
  "map_exn f [] = Inr []"
| "map_exn f (x # xs) =
     (case f x of
        Inl e \<Rightarrow> Inl e
      | Inr y \<Rightarrow> (case map_exn f xs of Inl e \<Rightarrow> Inl e | Inr ys \<Rightarrow> Inr (y # ys)))"

definition instance_view :: "(string \<times> string) list" where
  "instance_view =
     [(''id'', ''id''),
      (''modelId'', ''model_id''),
      (''modelName'', ''model_name''),
      (''status'', ''status''),
      (''instanceType'', ''instance_type''),
      (''estimatedCost'', ''estimated_cost''),
      (''endpoint'', ''endpoint''),
      (''startedAt'', ''created_at'')]"

definition list_instances_lf_try :: "user_info \<Rightarrow> world \<Rightarrow> exn + response" where
  "list_instances_lf_try user w =
     (case environ_item w ''INSTANCES_TABLE_NAME'' of
        Inl e \<Rightarrow> Inl e
      | Inr instances_table \<Rightarrow>
     (case (if ''Administrators'' \<in> set (groups user) then scan w instances_table
            else scan_attr_eq w instances_table ''user_id'' (py_of_str_opt (user_id user))) of
        Inl e \<Rightarrow> Inl e
      | Inr items \<Rightarrow>
     (case map_exn (\<lambda>it. map_sum id PDict (project it instance_view)) items of
        Inl e \<Rightarrow> Inl e
      | Inr instances \<Rightarrow>
          (case json_dumps (PList instances) of
             Inl e \<Rightarrow> Inl e
           | Inr data \<Rightarrow> Inr (response_lf 200 data)))))"

definition list_instances_lf :: "user_info \<Rightarrow> world \<Rightarrow> response" where
  "list_instances_lf user w =
     (case list_instances_lf_try user w of
        Inl e \<Rightarrow> failure_lf ''Failed to list instances'' e
      | Inr r \<Rightarrow> r)"

definition get_instance_lf_try :: "string \<Rightarrow> user_info \<Rightarrow> world \<Rightarrow> (exn + response) \<times> world" where
  "get_instance_lf_try instance_id user w =
     (case environ_item w ''INSTANCES_TABLE_NAME'' of
        Inl e \<Rightarrow> (Inl e, w)
      | Inr instances_table \<Rightarrow>
     (case get_item w instances_table ''id'' instance_id of
        Inl e \<Rightarrow> (Inl e, w)
      | Inr None \<Rightarrow> (Inr (error_lf 404 ''Instance not found''), w)
      | Inr (Some instance) \<Rightarrow>
     (case dict_item instance ''user_id'' of
        Inl e \<Rightarrow> (Inl e, w)
      | Inr owner \<Rightarrow>
          if access_denied owner user then (Inr (error_lf 403 ''Access denied''), w)
          else
     (case (if truthy (dict_get instance ''task_arn'') then
              (let current_status = get_ecs_task_status w (dict_get instance ''task_arn'')
               in case dict_item instance ''status'' of
                    Inl e \<Rightarrow> (Inl e, w)
                  | Inr stored_status \<Rightarrow>
                      if stored_status \<noteq> PStr current_status then
                        (case update_item instances_table ''id'' instance_id
                                [(''status'', PStr current_status),
                                 (''updated_at'', PStr (now_iso w))] w of
                           Inl e \<Rightarrow> (Inl e, w)
                         | Inr w1 \<Rightarrow>
                             (Inr (AList.update ''status'' (PStr current_status) instance), w1))
                      else (Inr instance, w))
            else (Inr instance, w)) of
        (Inl e, w1) \<Rightarrow> (Inl e, w1)
      | (Inr instance, w1) \<Rightarrow>
     (case project instance instance_view of
        Inl e \<Rightarrow> (Inl e, w1)
      | Inr view \<Rightarrow>
     (case dict_item instance ''created_at'' of
        Inl e \<Rightarrow> (Inl e, w1)
      | Inr created_at \<Rightarrow>
          (case json_dumps (PDict (view @
                  [(''updatedAt'', dict_get_default instance ''updated_at'' created_at)])) of
             Inl e \<Rightarrow> (Inl e, w1)
           | Inr data \<Rightarrow> (Inr (response_lf 200 data), w1))))))))"

definition get_instance_lf :: "string \<Rightarrow> user_info \<Rightarrow> world \<Rightarrow> response \<times> world" where
  "get_instance_lf instance_id user w =
     (case get_instance_lf_try instance_id user w of
        (Inl e, w') \<Rightarrow> (failure_lf ''Failed to get instance'' e, w')
      | (Inr r, w') \<Rightarrow> (r, w'))"

definition lambda_handler_lf_try :: "event \<Rightarrow> world \<Rightarrow> (exn + response) \<times> world" where
  "lambda_handler_lf_try ev w =
     (case httpMethod ev of
        None \<Rightarrow> (Inl (KeyError ''httpMethod''), w)
      | Some http_method \<Rightarrow>
     (case path ev of
        None \<Rightarrow> (Inl (KeyError ''path''), w)
      | Some p \<Rightarrow>
     (let user = get_user_info_from_context_lf ev
      in if p = ''/instances'' \<and> http_method = ''GET'' then
           (Inr (list_instances_lf user w), w)
         else if p = ''/instances'' \<and> http_method = ''POST'' then
           map_prod Inr id (create_instance ev user w)
         else if startswith p ''/instances/'' \<and> http_method = ''DELETE'' then
           map_prod Inr id (delete_instance (last (split (CHR ''/'') p)) user w)
         else if startswith p ''/instances/'' \<and> http_method = ''GET'' then
           map_prod Inr id (get_instance_lf (last (split (CHR ''/'') p)) user w)
         else (Inr (error_lf 404 ''Not found''), w))))"

definition lambda_handler_lf :: "event \<Rightarrow> world \<Rightarrow> response \<times> world" where
  "lambda_handler_lf ev w =
     (case lambda_handler_lf_try ev w of
        (Inl e, w') \<Rightarrow> (failure_lf ''Internal server error'' e, w')
      | (Inr r, w') \<Rightarrow> (r, w'))"

section \<open>src/lambda/instances.py\<close>

text \<open>
  \<^verbatim>\<open>get_user_info_from_context\<close> is the same in \<^verbatim>\<open>instances.py\<close> and \<^verbatim>\<open>models.py\<close>; its
  dictionary has no \<^verbatim>\<open>'username'\<close>.
\<close>

definition get_user_info_from_context :: "event \<Rightarrow> user_info" where
  "get_user_info_from_context ev =
     (let groups = dict_get_default (claims ev) ''cognito:groups'' []
      in \<lparr>user_id = map_of (claims ev) ''sub'',
          email = map_of (claims ev) ''email'',
          username = None,
          groups = (if groups = [] then [] else split (CHR '','') groups)\<rparr>)"

text \<open>\<^verbatim>\<open>create_success_response\<close> and \<^verbatim>\<open>create_error_response\<close>, the same in both modules; serialising the data may raise.\<close>

definition response_headers :: "(string \<times> string) list" where
  "response_headers =
     [(''Access-Control-Allow-Origin'', ''*''),
      (''Access-Control-Allow-Headers'', ''Content-Type,Authorization''),
      (''Access-Control-Allow-Methods'', ''GET,POST,PUT,DELETE,OPTIONS''),
      (''Content-Type'', ''application/json'')]"

definition create_success_response :: "py \<Rightarrow> int \<Rightarrow> exn + response" where
  "create_success_response data status_code =
     (case json_dumps data of
        Inl e \<Rightarrow> Inl e
      | Inr d \<Rightarrow> Inr \<lparr>statusCode = status_code, headers = response_headers, body = Some d\<rparr>)"

definition create_error_response :: "int \<Rightarrow> string \<Rightarrow> response" where
  "create_error_response status_code msg =
     \<lparr>statusCode = status_code, headers = response_headers,
      body = Some (PDict [(''error'', PStr msg)])\<rparr>"

text \<open>
  \<^verbatim>\<open>get_ecs_service_status\<close>. The default argument of
  \<^verbatim>\<open>os.environ.get('ECS_CLUSTER_NAME', f"{os.environ['ENVIRONMENT']}-ollama-cluster")\<close> is
  evaluated first, so an unset \<^verbatim>\<open>ENVIRONMENT\<close> raises; every exception falls back to
  the stored status.
\<close>

definition get_ecs_service_status :: "world \<Rightarrow> item \<Rightarrow> py" where
  "get_ecs_service_status w instance =
     (if map_of instance ''service_name'' = None \<or> map_of instance ''ecs_service_arn'' = None
      then dict_get_default instance ''status'' (PStr ''unknown'')
      else
        (case environ_item w ''ENVIRONMENT'' of
           Inl e \<Rightarrow> dict_get_default instance ''status'' (PStr ''unknown'')
         | Inr environment \<Rightarrow>
        (let cluster_name =
               dict_get_default (environ w) ''ECS_CLUSTER_NAME'' (environment @ ''-ollama-cluster'')
         in case ecs_describe_services w cluster_name (dict_get instance ''service_name'') of
              Inl e \<Rightarrow> dict_get_default instance ''status'' (PStr ''unknown'')
            | Inr services \<Rightarrow>
                (case services of
                   [] \<Rightarrow> PStr ''stopped''
                 | service # rest \<Rightarrow>
                     (let service_status = (case status service of None \<Rightarrow> ''UNKNOWN'' | Some s \<Rightarrow> s)
                      in if service_status = ''ACTIVE'' then
                           (let desired_count = (case desiredCount service of None \<Rightarrow> 0 | Some n \<Rightarrow> n);
                                running_count = (case runningCount service of None \<Rightarrow> 0 | Some n \<Rightarrow> n)
                            in if desired_count = 0 then PStr ''stopped''
                               else if running_count = desired_count then PStr ''running''
                               else if running_count > 0 then PStr ''starting''
                               else PStr ''pending'')
                         else if service_status = ''DRAINING'' then PStr ''stopping''
                         else PStr ''unknown'')))))"

definition get_ecs_service_details :: "world \<Rightarrow> item \<Rightarrow> py" where
  "get_ecs_service_details w instance =
     (if map_of instance ''service_name'' = None then PDict []
      else
        (case environ_item w ''ENVIRONMENT'' of
           Inl e \<Rightarrow> PDict [(''error'', PStr (str_exn e))]
         | Inr environment \<Rightarrow>
        (let cluster_name =
               dict_get_default (environ w) ''ECS_CLUSTER_NAME'' (environment @ ''-ollama-cluster'')
         in case ecs_describe_services w cluster_name (dict_get instance ''service_name'') of
              Inl e \<Rightarrow> PDict [(''error'', PStr (str_exn e))]
            | Inr services \<Rightarrow>
                (case services of
                   [] \<Rightarrow> PDict [(''error'', PStr ''Service not found'')]
                 | service # rest \<Rightarrow>
                     PDict
                       [(''service_arn'', py_of_str_opt (serviceArn service)),
                        (''task_definition'', py_of_str_opt (taskDefinition service)),
                        (''desired_count'', PInt (case desiredCount service of None \<Rightarrow> 0 | Some n \<Rightarrow> n)),
                        (''running_count'', PInt (case runningCount service of None \<Rightarrow> 0 | Some n \<Rightarrow> n)),
                        (''pending_count'', PInt (case pendingCount service of None \<Rightarrow> 0 | Some n \<Rightarrow> n)),
                        (''platform_version'', py_of_str_opt (platformVersion service)),
                        (''launch_type'', py_of_str_opt (launchType service)),
                        (''created_at'', py_of_str_opt (createdAt service))]))))"

definition get_instance_usage_stats :: "string \<Rightarrow> py" where
  "get_instance_usage_stats instance_id =
     PDict
       [(''uptime_hours'', PInt 0),
        (''api_requests'', PInt 0),
        (''cpu_usage_avg'', PInt 0),
        (''memory_usage_avg'', PInt 0),
        (''last_request'', PNone),
        (''note'', PStr ''Usage statistics will be available after CloudWatch integration'')]"

text \<open>
  \<^verbatim>\<open>items.sort(key=lambda x: x.get(k, ''), reverse=r)\<close>. Python compares the keys with
  \<^verbatim>\<open><\<close>: strings with strings and numbers with numbers; with two or more items any other
  mix of keys raises \<^verbatim>\<open>TypeError\<close>. The items sorted are read from the store, so no
  key is a float. (Keys that are all lists are not modelled: the model raises where Python
  would compare them.)
\<close>

fun str_key :: "py \<Rightarrow> string option" where
  "str_key (PStr s) = Some s"
| "str_key v = None"

fun num_key :: "py \<Rightarrow> int option" where
  "num_key (PInt n) = Some n"
| "num_key (PDecimal n) = Some n"
| "num_key (PBool b) = Some (if b then 1 else 0)"
| "num_key v = None"

definition sort_by :: "('a \<Rightarrow> 'k::linorder) \<Rightarrow> bool \<Rightarrow> 'a list \<Rightarrow> 'a list" where
  "sort_by f reverse xs = (if reverse then sort_reverse f xs else sort_key f xs)"

definition sort_items :: "string \<Rightarrow> bool \<Rightarrow> item list \<Rightarrow> exn + item list" where
  "sort_items k reverse items =
     (let keys = map (\<lambda>x. dict_get_default x k (PStr [])) items
      in if length items \<le> 1 then Inr items
         else
           (case those (map str_key keys) of
              Some ks \<Rightarrow> Inr (map snd (sort_by fst reverse (zip ks items)))
            | None \<Rightarrow>
                (case those (map num_key keys) of
                   Some ns \<Rightarrow> Inr (map snd (sort_by fst reverse (zip ns items)))
                 | None \<Rightarrow> Inl (TypeError ''< not supported between these instances''))))"

text \<open>
  \<^verbatim>\<open>list_instances\<close>. \<^verbatim>\<open>get_ecs_service_status\<close> catches every exception itself, so the
  \<^verbatim>\<open>except\<close> branch of the enrichment loop is never taken.
\<close>

definition list_instances_inst_try :: "user_info \<Rightarrow> world \<Rightarrow> exn + response" where
  "list_instances_inst_try user w =
     (case environ_item w ''INSTANCES_TABLE_NAME'' of
        Inl e \<Rightarrow> Inl e
      | Inr instances_table \<Rightarrow>
     (case (if ''Administrators'' \<in> set (groups user) then scan w instances_table
            else query_user w instances_table (user_id user)) of
        Inl e \<Rightarrow> Inl e
      | Inr items \<Rightarrow>
     (case sort_items ''created_at'' True items of
        Inl e \<Rightarrow> Inl e
      | Inr sorted_items \<Rightarrow>
          (let instances =
                 map (\<lambda>instance.
                        AList.update ''real_time_status'' (get_ecs_service_status w instance) instance)
                   sorted_items
           in create_success_response
                (PDict
                   [(''instances'', PList (map PDict instances)),
                    (''count'', PInt (int (length instances))),
                    (''user_filter'',
                       PStr (if ''Administrators'' \<in> set (groups user) then ''all'' else ''own''))])
                200))))"

definition list_instances_inst :: "user_info \<Rightarrow> world \<Rightarrow> response" where
  "list_instances_inst user w =
     (case list_instances_inst_try user w of
        Inl e \<Rightarrow> create_error_response 500 ''Failed to retrieve instances''
      | Inr r \<Rightarrow> r)"

definition get_instance_inst_try :: "string \<Rightarrow> user_info \<Rightarrow> world \<Rightarrow> exn + response" where
  "get_instance_inst_try instance_id user w =
     (case environ_item w ''INSTANCES_TABLE_NAME'' of
        Inl e \<Rightarrow> Inl e
      | Inr instances_table \<Rightarrow>
     (case get_item w instances_table ''instance_id'' instance_id of
        Inl e \<Rightarrow> Inl e
      | Inr None \<Rightarrow> Inr (create_error_response 404 ''Instance not found'')
      | Inr (Some instance) \<Rightarrow>
     (case dict_item instance ''user_id'' of
        Inl e \<Rightarrow> Inl e
      | Inr owner \<Rightarrow>
          if access_denied owner user then Inr (create_error_response 403 ''Access denied'')
          else
            (let instance = AList.update ''real_time_status'' (get_ecs_service_status w instance) instance;
                 instance = AList.update ''service_details'' (get_ecs_service_details w instance) instance;
                 instance = AList.update ''usage_stats'' (get_instance_usage_stats instance_id) instance
             in create_success_response (PDict instance) 200))))"

definition get_instance_inst :: "string \<Rightarrow> user_info \<Rightarrow> world \<Rightarrow> response" where
  "get_instance_inst instance_id user w =
     (case get_instance_inst_try instance_id user w of
        Inl e \<Rightarrow> create_error_response 500 ''Failed to retrieve instance''
      | Inr r \<Rightarrow> r)"


text \<open>
  \<^verbatim>\<open>get_instance_logs\<close>. A log entry is kept as (timestamp, message, stream) until the body
  is built. The loop over the events of one stream stops at the first exception (here the
  rendering of a timestamp), which the \<^verbatim>\<open>except Exception\<close> inside the loop over the
  streams logs; the entries appended so far stay. The streams are listed with
  \<^verbatim>\<open>logStreamNamePrefix\<close> and \<^verbatim>\<open>orderBy='LastEventTime'\<close> (and \<^verbatim>\<open>descending=True\<close>,
  \<^verbatim>\<open>limit=5\<close>); \<open>logs_get_log_events\<close> is the call with \<^verbatim>\<open>limit=100\<close>,
  \<^verbatim>\<open>startFromHead=False\<close>. Of the exceptions of the listing only
  \<^verbatim>\<open>ResourceNotFoundException\<close> is caught by the inner handler.
\<close>

fun collect_events :: "world \<Rightarrow> string \<Rightarrow> log_event list \<Rightarrow> (string \<times> string \<times> string) list" where
  "collect_events w stream [] = []"
| "collect_events w stream (e # es) =
     (case fromtimestamp_iso w (timestamp e) of
        Inl x \<Rightarrow> []
      | Inr ts \<Rightarrow> (ts, message e, stream) # collect_events w stream es)"

definition collect_logs :: "world \<Rightarrow> string \<Rightarrow> string list \<Rightarrow> (string \<times> string \<times> string) list" where
  "collect_logs w log_group_name streams =
     concat (map (\<lambda>stream.
                    case logs_get_log_events w log_group_name stream of
                      Inl e \<Rightarrow> []
                    | Inr events \<Rightarrow> collect_events w stream events)
               streams)"

definition log_entry :: "string \<times> string \<times> string \<Rightarrow> py" where
  "log_entry l =
     (case l of (ts, msg, stream) \<Rightarrow>
        PDict [(''timestamp'', PStr ts), (''message'', PStr msg), (''stream'', PStr stream)])"

definition get_instance_logs_try :: "string \<Rightarrow> user_info \<Rightarrow> world \<Rightarrow> exn + response" where
  "get_instance_logs_try instance_id user w =
     (case environ_item w ''INSTANCES_TABLE_NAME'' of
        Inl e \<Rightarrow> Inl e
      | Inr instances_table \<Rightarrow>
     (case get_item w instances_table ''instance_id'' instance_id of
        Inl e \<Rightarrow> Inl e
      | Inr None \<Rightarrow> Inr (create_error_response 404 ''Instance not found'')
      | Inr (Some instance) \<Rightarrow>
     (case dict_item instance ''user_id'' of
        Inl e \<Rightarrow> Inl e
      | Inr owner \<Rightarrow>
          if access_denied owner user then Inr (create_error_response 403 ''Access denied'')
          else
     (case environ_item w ''ENVIRONMENT'' of
        Inl e \<Rightarrow> Inl e
      | Inr environment \<Rightarrow>
     (let log_group_name = ''/ecs/'' @ environment @ ''-ollama'';
          log_stream_prefix = ''ollama-'' @ take 8 instance_id
      in case describe_log_streams w log_group_name log_stream_prefix ''LastEventTime'' of
           Inl (ResourceNotFoundException m) \<Rightarrow>
             create_success_response
               (PDict
                  [(''logs'', PList []),
                   (''instance_id'', PStr instance_id),
                   (''message'', PStr ''No logs available yet'')])
               200
         | Inl e \<Rightarrow> Inl e
         | Inr streams \<Rightarrow>
             (let logs = collect_logs w log_group_name streams;
                  logs = sort_reverse fst logs
              in create_success_response
                   (PDict
                      [(''logs'', PList (map log_entry (take 100 logs))),
                       (''instance_id'', PStr instance_id),
                       (''log_group'', PStr log_group_name),
                       (''stream_prefix'', PStr log_stream_prefix)])
                   200))))))"

definition get_instance_logs :: "string \<Rightarrow> user_info \<Rightarrow> world \<Rightarrow> response" where
  "get_instance_logs instance_id user w =
     (case get_instance_logs_try instance_id user w of
        Inl e \<Rightarrow> create_error_response 500 ''Failed to retrieve logs''
      | Inr r \<Rightarrow> r)"

text \<open>\<^verbatim>\<open>get_instance_status\<close>: a failed write of the reconciled status is logged and ignored.\<close>

definition get_instance_status_try :: "string \<Rightarrow> user_info \<Rightarrow> world \<Rightarrow> (exn + response) \<times> world" where
  "get_instance_status_try instance_id user w =
     (case environ_item w ''INSTANCES_TABLE_NAME'' of
        Inl e \<Rightarrow> (Inl e, w)
      | Inr instances_table \<Rightarrow>
     (case get_item w instances_table ''instance_id'' instance_id of
        Inl e \<Rightarrow> (Inl e, w)
      | Inr None \<Rightarrow> (Inr (create_error_response 404 ''Instance not found''), w)
      | Inr (Some instance) \<Rightarrow>
     (case dict_item instance ''user_id'' of
        Inl e \<Rightarrow> (Inl e, w)
      | Inr owner \<Rightarrow>
          if access_denied owner user then (Inr (create_error_response 403 ''Access denied''), w)
          else
            (let stored_status = dict_get_default instance ''status'' (PStr ''unknown'');
                 real_time_status = get_ecs_service_status w instance;
                 status_info =
                   [(''instance_id'', PStr instance_id),
                    (''stored_status'', stored_status),
                    (''real_time_status'', real_time_status),
                    (''service_details'', get_ecs_service_details w instance),
                    (''last_updated'', PStr (now_iso w))];
                 w1 =
                   (if real_time_status \<noteq> stored_status then
                      (case update_item instances_table ''instance_id'' instance_id
                              [(''status'', real_time_status),
                               (''last_status_update'', PStr (now_iso w))] w of
                         Inl e \<Rightarrow> w
                       | Inr w' \<Rightarrow> w')
                    else w)
             in (create_success_response (PDict status_info) 200, w1)))))"

definition get_instance_status :: "string \<Rightarrow> user_info \<Rightarrow> world \<Rightarrow> response \<times> world" where
  "get_instance_status instance_id user w =
     (case get_instance_status_try instance_id user w of
        (Inl e, w') \<Rightarrow> (create_error_response 500 ''Failed to retrieve instance status'', w')
      | (Inr r, w') \<Rightarrow> (r, w'))"

definition lambda_handler_inst_try :: "event \<Rightarrow> world \<Rightarrow> (exn + response) \<times> world" where
  "lambda_handler_inst_try ev w =
     (case httpMethod ev of
        None \<Rightarrow> (Inl (KeyError ''httpMethod''), w)
      | Some http_method \<Rightarrow>
     (case path ev of
        None \<Rightarrow> (Inl (KeyError ''path''), w)
      | Some p \<Rightarrow>
     (let user = get_user_info_from_context ev
      in if p = ''/instances'' \<and> http_method = ''GET'' then
           (Inr (list_instances_inst user w), w)
         else if startswith p ''/instances/'' \<and> \<not> count p (CHR ''/'') > 2 \<and> http_method = ''GET'' then
           (Inr (get_instance_inst (last (split (CHR ''/'') p)) user w), w)
         else if endswith p ''/logs'' \<and> http_method = ''GET'' then
           (case index_from_end (split (CHR ''/'') p) 2 of
              Inl e \<Rightarrow> (Inl e, w)
            | Inr instance_id \<Rightarrow> (Inr (get_instance_logs instance_id user w), w))
         else if endswith p ''/status'' \<and> http_method = ''GET'' then
           (case index_from_end (split (CHR ''/'') p) 2 of
              Inl e \<Rightarrow> (Inl e, w)
            | Inr instance_id \<Rightarrow> map_prod Inr id (get_instance_status instance_id user w))
         else (Inr (create_error_response 404 ''Not found''), w))))"

definition lambda_handler_inst :: "event \<Rightarrow> world \<Rightarrow> response \<times> world" where
  "lambda_handler_inst ev w =
     (case lambda_handler_inst_try ev w of
        (Inl e, w') \<Rightarrow> (create_error_response 500 ''Internal server error'', w')
      | (Inr r, w') \<Rightarrow> (r, w'))"

section \<open>src/lambda/models.py\<close>

text \<open>
  \<^verbatim>\<open>int(s)\<close> on a string: surrounding white space is stripped, one sign is allowed, and the
  digits may be grouped by single underscores; anything else raises \<^verbatim>\<open>ValueError\<close>
  (\<open>None\<close>). ASCII only.
\<close>

definition is_space :: "char \<Rightarrow> bool" where
  "is_space c = (c \<in> set [CHR 0x09, CHR 0x0A, CHR 0x0B, CHR 0x0C, CHR 0x0D,
                           CHR 0x1C, CHR 0x1D, CHR 0x1E, CHR 0x1F, CHR 0x20])"

definition strip :: "string \<Rightarrow> string" where
  "strip s = rev (dropWhile is_space (rev (dropWhile is_space s)))"

definition is_digit :: "char \<Rightarrow> bool" where
  "is_digit c = (CHR ''0'' \<le> c \<and> c \<le> CHR ''9'')"

definition digit_value :: "char \<Rightarrow> nat" where
  "digit_value c = of_char c - 48"

fun digits_from :: "nat \<Rightarrow> string \<Rightarrow> nat option" where
  "digits_from acc [] = Some acc"
| "digits_from acc [c] = (if is_digit c then Some (10 * acc + digit_value c) else None)"
| "digits_from acc (c # d # cs) =
     (if is_digit c then digits_from (10 * acc + digit_value c) (d # cs)
      else if c = CHR ''_'' \<and> is_digit d then digits_from acc (d # cs)
      else None)"

definition py_int :: "string \<Rightarrow> int option" where
  "py_int s =
     (let t = strip s;
          (neg, ds) =
            (case t of
               c # cs \<Rightarrow>
                 if c = CHR ''-'' then (True, cs)
                 else if c = CHR ''+'' then (False, cs)
                 else (False, t)
             | [] \<Rightarrow> (False, t))
      in case ds of
           [] \<Rightarrow> None
         | c # cs \<Rightarrow>
             if is_digit c then
               (case digits_from 0 ds of
                  None \<Rightarrow> None
                | Some n \<Rightarrow> Some (if neg then - int n else int n))
             else None)"

text \<open>\<^verbatim>\<open>v * 1024\<close>: numbers multiply, sequences repeat, \<^verbatim>\<open>None\<close> and dictionaries raise.\<close>

fun times_1024 :: "py \<Rightarrow> exn + py" where
  "times_1024 (PInt n) = Inr (PInt (n * 1024))"
| "times_1024 (PDecimal n) = Inr (PDecimal (n * 1024))"
| "times_1024 (PFloat m e) = Inr (PFloat (m * 1024) e)"
| "times_1024 (PBool b) = Inr (PInt (if b then 1024 else 0))"
| "times_1024 (PStr s) = Inr (PStr (concat (replicate 1024 s)))"
| "times_1024 (PList xs) = Inr (PList (concat (replicate 1024 xs)))"
| "times_1024 v = Inl (TypeError ''unsupported operand type(s) for *'')"

definition list_models_try :: "world \<Rightarrow> exn + response" where
  "list_models_try w =
     (case environ_item w ''MODELS_TABLE_NAME'' of
        Inl e \<Rightarrow> Inl e
      | Inr models_table \<Rightarrow>
     (case scan_attr_eq w models_table ''is_active'' (PBool True) of
        Inl e \<Rightarrow> Inl e
      | Inr items \<Rightarrow>
     (case sort_items ''model_name'' False items of
        Inl e \<Rightarrow> Inl e
      | Inr models \<Rightarrow>
          create_success_response
            (PDict [(''models'', PList (map PDict models)),
                    (''count'', PInt (int (length models)))])
            200)))"

definition list_models :: "world \<Rightarrow> response" where
  "list_models w =
     (case list_models_try w of
        Inl e \<Rightarrow> create_error_response 500 ''Failed to retrieve models''
      | Inr r \<Rightarrow> r)"

text \<open>
  The query of \<^verbatim>\<open>check_user_instance_limits\<close>: the items of the caller whose status is
  one of \<open>statuses\<close> (\<^verbatim>\<open>FilterExpression='#status IN (:running, :starting)'\<close>).
\<close>

definition query_user_status_in ::
  "world \<Rightarrow> string \<Rightarrow> string option \<Rightarrow> string list \<Rightarrow> exn + item list" where
  "query_user_status_in w tname uid statuses =
     (case query_user w tname uid of
        Inl e \<Rightarrow> Inl e
      | Inr items \<Rightarrow>
          Inr (filter (\<lambda>it. map_of it ''status'' \<in> set (map (\<lambda>s. Some (PStr s)) statuses)) items))"

definition check_user_instance_limits :: "world \<Rightarrow> string option \<Rightarrow> bool" where
  "check_user_instance_limits w uid =
     (case environ_item w ''INSTANCES_TABLE_NAME'' of
        Inl e \<Rightarrow> False
      | Inr instances_table \<Rightarrow>
     (case query_user_status_in w instances_table uid [''running'', ''starting''] of
        Inl e \<Rightarrow> False
      | Inr items \<Rightarrow>
          (let active_instances = int (length items)
           in case py_int (dict_get_default (environ w) ''MAX_INSTANCES_PER_USER'' ''5'') of
                None \<Rightarrow> False
              | Some max_instances \<Rightarrow> active_instances < max_instances)))"

text \<open>
  \<^verbatim>\<open>create_task_definition\<close> and \<^verbatim>\<open>create_target_group\<close> log and re-raise. The container
  definition is changed after it was put into the task definition; both hold the same
  dictionary, so the task definition that is registered has the change.
\<close>

definition create_task_definition ::
  "item \<Rightarrow> py \<Rightarrow> string \<Rightarrow> world \<Rightarrow> (exn + string) \<times> world" where
  "create_task_definition model instance_type instance_id w =
     (case environ_item w ''ENVIRONMENT'' of
        Inl e \<Rightarrow> (Inl e, w)
      | Inr environment \<Rightarrow>
     (case dict_item model ''model_id'' of
        Inl e \<Rightarrow> (Inl e, w)
      | Inr model_id \<Rightarrow>
     (let family_name = environment @ ''-ollama-'' @ py_str model_id @ ''-'' @ take 8 instance_id
      in case dict_get_default model ''cpu_requirements'' (PDict []) of
           PDict cpu_req \<Rightarrow>
     (case times_1024 (dict_get_default cpu_req ''vcpu'' (PInt 1)) of
        Inl e \<Rightarrow> (Inl e, w)
      | Inr vcpu_units \<Rightarrow>
     (case environ_item w ''AWS_REGION'' of
        Inl e \<Rightarrow> (Inl e, w)
      | Inr region \<Rightarrow>
     (let cpu = py_str vcpu_units;
          memory = py_str (dict_get_default cpu_req ''memory_mb'' (PInt 2048));
          gpu = (instance_type = PStr ''gpu'' \<and> truthy (dict_get model ''gpu_requirements''));
          container_def =
            [(''name'', PStr ''ollama''),
             (''image'', dict_get_default model ''image_uri'' (PStr ''ollama/ollama:latest'')),
             (''essential'', PBool True),
             (''portMappings'', PList
                [PDict [(''containerPort'', PInt 11434), (''protocol'', PStr ''tcp'')]]),
             (''environment'', PList
                [name_value ''OLLAMA_HOST'' (PStr ''0.0.0.0''),
                 name_value ''OLLAMA_ORIGINS'' (PStr ''*''),
                 name_value ''OLLAMA_MODEL'' model_id]),
             (''healthCheck'', PDict
                [(''command'', PList
                    [PStr ''CMD-SHELL'', PStr ''curl -f http://localhost:11434/api/tags || exit 1'']),
                 (''interval'', PInt 30),
                 (''timeout'', PInt 5),
                 (''retries'', PInt 3),
                 (''startPeriod'', PInt 120)]),
             (''logConfiguration'', PDict
                [(''logDriver'', PStr ''awslogs''),
                 (''options'', PDict
                    [(''awslogs-group'', PStr (''/ecs/'' @ environment @ ''-ollama'')),
                     (''awslogs-region'', PStr region),
                     (''awslogs-stream-prefix'', PStr (''ollama-'' @ take 8 instance_id))])])]
            @ (if gpu then
                 [(''resourceRequirements'', PList
                     [PDict [(''type'', PStr ''GPU''), (''value'', PStr ''1'')]])]
               else []);
          task_def =
            [(''family'', PStr family_name),
             (''networkMode'', PStr ''awsvpc''),
             (''requiresCompatibilities'', PList
                [PStr (if gpu then ''EC2''
                       else if instance_type = PStr ''fargate'' then ''FARGATE'' else ''EC2'')]),
             (''cpu'', PStr cpu),
             (''memory'', PStr memory),
             (''executionRoleArn'', py_of_str_opt (environ_get w ''ECS_EXECUTION_ROLE_ARN'')),
             (''taskRoleArn'', py_of_str_opt (environ_get w ''ECS_TASK_ROLE_ARN'')),
             (''containerDefinitions'', PList [PDict container_def]),
             (''tags'', PList
                [key_value ''Environment'' (PStr environment),
                 key_value ''Project'' (PStr ''aws-ollama-platform''),
                 key_value ''Model'' model_id])]
            @ (if gpu then
                 [(''placementConstraints'', PList
                     [PDict [(''type'', PStr ''memberOf''),
                             (''expression'', PStr ''attribute:ecs.instance-type =~ g4dn.*'')]])]
               else []);
          w1 = issue (RegisterTaskDefinition (PDict task_def)) w
      in (ecs_register_task_definition w (PDict task_def), w1))))
         | other \<Rightarrow> (Inl (AttributeError ''object has no attribute get''), w))))"

definition create_target_group :: "string \<Rightarrow> world \<Rightarrow> (exn + string) \<times> world" where
  "create_target_group service_name w =
     (case environ_item w ''ENVIRONMENT'' of
        Inl e \<Rightarrow> (Inl e, w)
      | Inr environment \<Rightarrow>
          (let params =
                 PDict
                   [(''Name'', PStr (take 32 service_name)),
                    (''Protocol'', PStr ''HTTP''),
                    (''Port'', PInt 11434),
                    (''VpcId'', py_of_str_opt (environ_get w ''VPC_ID'')),
                    (''TargetType'', PStr ''ip''),
                    (''HealthCheckEnabled'', PBool True),
                    (''HealthCheckGracePeriodSeconds'', PInt 300),
                    (''HealthCheckIntervalSeconds'', PInt 30),
                    (''HealthCheckPath'', PStr ''/api/tags''),
                    (''HealthCheckPort'', PStr ''traffic-port''),
                    (''HealthCheckProtocol'', PStr ''HTTP''),
                    (''HealthCheckTimeoutSeconds'', PInt 5),
                    (''HealthyThresholdCount'', PInt 2),
                    (''UnhealthyThresholdCount'', PInt 2),
                    (''Matcher'', PDict [(''HttpCode'', PStr ''200'')]),
                    (''Tags'', PList
                       [PDict [(''Key'', PStr ''Environment''), (''Value'', PStr environment)],
                        PDict [(''Key'', PStr ''Project''), (''Value'', PStr ''aws-ollama-platform'')],
                        PDict [(''Key'', PStr ''Service''), (''Value'', PStr service_name)]])];
               w1 = issue (CreateTargetGroup params) w
           in case elbv2_create_target_group w params of
                Inl e \<Rightarrow> (Inl e, w1)
              | Inr target_groups \<Rightarrow>
                  (case target_groups of
                     [] \<Rightarrow> (Inl (IndexError ''list index out of range''), w1)
                   | target_group_arn # rest \<Rightarrow> (Inr target_group_arn, w1))))"

text \<open>The keyword arguments of \<^verbatim>\<open>ecs_client.create_service\<close> and the item that \<^verbatim>\<open>start_model\<close> stores, given the values they are built from.\<close>

type_synonym arn = string

definition create_service_params ::
  "world \<Rightarrow> user_info \<Rightarrow> string \<Rightarrow> string \<Rightarrow> string \<Rightarrow> arn \<Rightarrow> arn \<Rightarrow> py \<Rightarrow> string \<Rightarrow> py" where
  "create_service_params w user cluster environment service_name task_definition_arn
     target_group_arn instance_type model_id =
     PDict
       [(''cluster'', PStr cluster),
        (''serviceName'', PStr service_name),
        (''taskDefinition'', PStr task_definition_arn),
        (''desiredCount'', PInt 1),
        (''launchType'', PStr (if instance_type = PStr ''fargate'' then ''FARGATE'' else ''EC2'')),
        (''networkConfiguration'',
           (if instance_type = PStr ''fargate'' then
              awsvpc_configuration
                (dict_get_default (environ w) ''PRIVATE_SUBNET_IDS'' [])
                (py_of_str_opt (environ_get w ''ECS_SECURITY_GROUP_ID''))
            else PDict [])),
        (''loadBalancers'', PList
           [PDict [(''targetGroupArn'', PStr target_group_arn),
                   (''containerName'', PStr ''ollama''),
                   (''containerPort'', PInt 11434)]]),
        (''tags'', PList
           [key_value ''Environment'' (PStr environment),
            key_value ''Project'' (PStr ''aws-ollama-platform''),
            key_value ''Owner'' (py_of_str_opt (user_id user)),
            key_value ''Model'' (PStr model_id)])]"

definition started_instance ::
  "world \<Rightarrow> user_info \<Rightarrow> string \<Rightarrow> string \<Rightarrow> string \<Rightarrow> arn \<Rightarrow> arn \<Rightarrow> arn \<Rightarrow> py \<Rightarrow> string \<Rightarrow> py \<Rightarrow> item" where
  "started_instance w user instance_id model_id service_name service_arn target_group_arn
     task_definition_arn instance_type endpoint_url custom_name =
     [(''instance_id'', PStr instance_id),
      (''model_id'', PStr model_id),
      (''user_id'', py_of_str_opt (user_id user)),
      (''service_name'', PStr service_name),
      (''ecs_service_arn'', PStr service_arn),
      (''target_group_arn'', PStr target_group_arn),
      (''task_definition_arn'', PStr task_definition_arn),
      (''status'', PStr ''starting''),
      (''instance_type'', instance_type),
      (''endpoint_url'', PStr endpoint_url),
      (''custom_name'', custom_name),
      (''created_at'', PStr (now_iso w)),
      (''ttl'', PInt (now_timestamp w + 24 * 3600))]"

definition start_model_try :: "event \<Rightarrow> user_info \<Rightarrow> world \<Rightarrow> (exn + response) \<times> world" where
  "start_model_try ev user w =
     (case json_body ev of
        Inl e \<Rightarrow> (Inl e, w)
      | Inr b \<Rightarrow>
     (let model_id = dict_get b ''model_id'';
          instance_type = dict_get_default b ''instance_type'' (PStr ''fargate'');
          custom_name = dict_get_default b ''name'' (PStr [])
      in if \<not> truthy model_id then (Inr (create_error_response 400 ''model_id is required''), w)
         else
     (case environ_item w ''MODELS_TABLE_NAME'' of
        Inl e \<Rightarrow> (Inl e, w)
      | Inr models_table \<Rightarrow>
     (case table_key model_id of
        Inl e \<Rightarrow> (Inl e, w)
      | Inr model_id \<Rightarrow>
     (case get_item w models_table ''model_id'' model_id of
        Inl e \<Rightarrow> (Inl e, w)
      | Inr None \<Rightarrow> (Inr (create_error_response 404 ''Model not found''), w)
      | Inr (Some model) \<Rightarrow>
     (let instance_id = uuid4 w
      in if \<not> check_user_instance_limits w (user_id user) then
           (Inr (create_error_response 429 ''Instance limit exceeded''), w)
         else
     (let service_name = ''ollama-'' @ take 8 instance_id
      in case create_task_definition model instance_type instance_id w of
           (Inl e, w1) \<Rightarrow> (Inl e, w1)
         | (Inr task_definition_arn, w1) \<Rightarrow>
     (case create_target_group service_name w1 of
        (Inl e, w2) \<Rightarrow> (Inl e, w2)
      | (Inr target_group_arn, w2) \<Rightarrow>
     (case environ_item w2 ''ECS_CLUSTER_NAME'' of
        Inl e \<Rightarrow> (Inl e, w2)
      | Inr cluster \<Rightarrow>
     (case environ_item w2 ''ENVIRONMENT'' of
        Inl e \<Rightarrow> (Inl e, w2)
      | Inr environment \<Rightarrow>
     (let params =
            create_service_params w2 user cluster environment service_name task_definition_arn
              target_group_arn instance_type model_id;
          w3 = issue (CreateService params) w2
      in case ecs_create_service w2 params of
           Inl e \<Rightarrow> (Inl e, w3)
         | Inr service_arn \<Rightarrow>
     (case environ_item w3 ''INSTANCES_TABLE_NAME'' of
        Inl e \<Rightarrow> (Inl e, w3)
      | Inr instances_table \<Rightarrow>
     (let endpoint_url =
            ''https://ollama-'' @ take 8 instance_id @ ''.'' @
            dict_get_default (environ w3) ''DOMAIN_NAME'' ''example.com''
      in case put_item instances_table
                (started_instance w3 user instance_id model_id service_name service_arn
                   target_group_arn task_definition_arn instance_type endpoint_url custom_name)
                w3 of
           Inl e \<Rightarrow> (Inl e, w3)
         | Inr w4 \<Rightarrow>
             (create_success_response
                (PDict
                   [(''instance_id'', PStr instance_id),
                    (''service_name'', PStr service_name),
                    (''status'', PStr ''starting''),
                    (''endpoint_url'', PStr endpoint_url),
                    (''estimated_ready_time'', PStr ''2-5 minutes'')])
                201, w4))))))))))))))"

definition start_model :: "event \<Rightarrow> user_info \<Rightarrow> world \<Rightarrow> response \<times> world" where
  "start_model ev user w =
     (case start_model_try ev user w of
        (Inl e, w') \<Rightarrow> (create_error_response 500 ''Failed to start model'', w')
      | (Inr r, w') \<Rightarrow> (r, w'))"

text \<open>
  \<^verbatim>\<open>stop_model\<close>. The two cleanup blocks catch every exception: of the first, the service is
  deleted only when scaling it to zero did not raise; the outcome of the deletions is only
  logged. The pause \<^verbatim>\<open>time.sleep(5)\<close> has no counterpart in the model.
\<close>

definition stop_ecs_service :: "item \<Rightarrow> world \<Rightarrow> world" where
  "stop_ecs_service instance w =
     (case environ_item w ''ECS_CLUSTER_NAME'' of
        Inl e \<Rightarrow> w
      | Inr cluster \<Rightarrow>
          (case dict_item instance ''service_name'' of
             Inl e \<Rightarrow> w
           | Inr service \<Rightarrow>
               (let update_params =
                      PDict [(''cluster'', PStr cluster), (''service'', service), (''desiredCount'', PInt 0)];
                    w1 = issue (UpdateService update_params) w
                in case ecs_update_service w update_params of
                     Some e \<Rightarrow> w1
                   | None \<Rightarrow>
                       issue (DeleteService (PDict [(''cluster'', PStr cluster), (''service'', service)])) w1)))"

definition delete_target_group :: "item \<Rightarrow> world \<Rightarrow> world" where
  "delete_target_group instance w =
     issue (DeleteTargetGroup (PDict [(''TargetGroupArn'', dict_get instance ''target_group_arn'')])) w"

definition stop_model_try :: "string \<Rightarrow> user_info \<Rightarrow> world \<Rightarrow> (exn + response) \<times> world" where
  "stop_model_try instance_id user w =
     (case environ_item w ''INSTANCES_TABLE_NAME'' of
        Inl e \<Rightarrow> (Inl e, w)
      | Inr instances_table \<Rightarrow>
     (case get_item w instances_table ''instance_id'' instance_id of
        Inl e \<Rightarrow> (Inl e, w)
      | Inr None \<Rightarrow> (Inr (create_error_response 404 ''Instance not found''), w)
      | Inr (Some instance) \<Rightarrow>
     (case dict_item instance ''user_id'' of
        Inl e \<Rightarrow> (Inl e, w)
      | Inr owner \<Rightarrow>
          if access_denied owner user then (Inr (create_error_response 403 ''Access denied''), w)
          else
            (let w1 = stop_ecs_service instance w;
                 w2 = delete_target_group instance w1
             in case update_item instances_table ''instance_id'' instance_id
                       [(''status'', PStr ''stopped''), (''stopped_at'', PStr (now_iso w2))] w2 of
                  Inl e \<Rightarrow> (Inl e, w2)
                | Inr w3 \<Rightarrow>
                    (create_success_response
                       (PDict [(''instance_id'', PStr instance_id), (''status'', PStr ''stopped'')])
                       200, w3)))))"

definition stop_model :: "string \<Rightarrow> user_info \<Rightarrow> world \<Rightarrow> response \<times> world" where
  "stop_model instance_id user w =
     (case stop_model_try instance_id user w of
        (Inl e, w') \<Rightarrow> (create_error_response 500 ''Failed to stop model'', w')
      | (Inr r, w') \<Rightarrow> (r, w'))"

definition lambda_handler_mod_try :: "event \<Rightarrow> world \<Rightarrow> (exn + response) \<times> world" where
  "lambda_handler_mod_try ev w =
     (case httpMethod ev of
        None \<Rightarrow> (Inl (KeyError ''httpMethod''), w)
      | Some http_method \<Rightarrow>
     (case path ev of
        None \<Rightarrow> (Inl (KeyError ''path''), w)
      | Some p \<Rightarrow>
     (let user = get_user_info_from_context ev
      in if p = ''/models'' \<and> http_method = ''GET'' then
           (Inr (list_models w), w)
         else if p = ''/models/start'' \<and> http_method = ''POST'' then
           map_prod Inr id (start_model ev user w)
         else if startswith p ''/models/'' \<and> endswith p ''/stop'' \<and> http_method = ''DELETE'' then
           (case index_from_end (split (CHR ''/'') p) 2 of
              Inl e \<Rightarrow> (Inl e, w)
            | Inr instance_id \<Rightarrow> map_prod Inr id (stop_model instance_id user w))
         else (Inr (create_error_response 404 ''Not found''), w))))"

definition lambda_handler_mod :: "event \<Rightarrow> world \<Rightarrow> response \<times> world" where
  "lambda_handler_mod ev w =
     (case lambda_handler_mod_try ev w of
        (Inl e, w') \<Rightarrow> (create_error_response 500 ''Internal server error'', w')
      | (Inr r, w') \<Rightarrow> (r, w'))"

section \<open>Vocabulary of the properties and example worlds\<close>

text \<open>The instance record stored under an identifier, as each operation fetches it: the table named by \<^verbatim>\<open>INSTANCES_TABLE_NAME\<close>, read by its key.\<close>

definition lookup_instance :: "world \<Rightarrow> string \<Rightarrow> string \<Rightarrow> exn + item option" where
  "lookup_instance w kattr instance_id =
     (case environ_item w ''INSTANCES_TABLE_NAME'' of
        Inl e \<Rightarrow> Inl e
      | Inr instances_table \<Rightarrow> get_item w instances_table kattr instance_id)"

text \<open>The catalog entry of a model identifier, likewise.\<close>

definition lookup_model :: "world \<Rightarrow> string \<Rightarrow> string \<Rightarrow> exn + item option" where
  "lookup_model w kattr model_id =
     (case environ_item w ''MODELS_TABLE_NAME'' of
        Inl e \<Rightarrow> Inl e
      | Inr models_table \<Rightarrow> get_item w models_table kattr model_id)"

text \<open>The rows of the instances table.\<close>

definition instance_rows :: "world \<Rightarrow> item list" where
  "instance_rows w =
     (case environ_get w ''INSTANCES_TABLE_NAME'' of
        None \<Rightarrow> []
      | Some instances_table \<Rightarrow>
          (case map_of (tables w) instances_table of None \<Rightarrow> [] | Some t \<Rightarrow> rows t))"

text \<open>The caller's active instances: owned by the user, with status "starting" or "running".\<close>

definition active_instances_of :: "world \<Rightarrow> string \<Rightarrow> item list" where
  "active_instances_of w u =
     filter (\<lambda>it. map_of it ''user_id'' = Some (PStr u) \<and>
                  (map_of it ''status'' = Some (PStr ''starting'') \<or>
                   map_of it ''status'' = Some (PStr ''running'')))
       (instance_rows w)"

text \<open>The uniform error envelope \<^verbatim>\<open>{error, message?}\<close>.\<close>

fun error_envelope :: "py option \<Rightarrow> bool" where
  "error_envelope (Some (PDict [(k, PStr e)])) = (k = ''error'')"
| "error_envelope (Some (PDict [(k, PStr e), (k', PStr m)])) = (k = ''error'' \<and> k' = ''message'')"
| "error_envelope b = False"

text \<open>
  A structured response with a JSON body: the fixed header set, a success code with a body,
  or an error code with the error envelope. And the response without content.
\<close>

definition json_response :: "(string \<times> string) list \<Rightarrow> response \<Rightarrow> bool" where
  "json_response hs r =
     (headers r = hs \<and>
      (if statusCode r \<in> {200, 201} then body r \<noteq> None
       else statusCode r \<in> {400, 403, 404, 429, 500} \<and> error_envelope (body r)))"

definition no_content :: "(string \<times> string) list \<Rightarrow> response \<Rightarrow> bool" where
  "no_content hs r = (headers r = hs \<and> statusCode r = 204 \<and> body r = None)"

text \<open>The instances a list response carries: the JSON array of \<^verbatim>\<open>lambda_function.py\<close>, or the \<^verbatim>\<open>'instances'\<close> entry of \<^verbatim>\<open>instances.py\<close>; none in an error response.\<close>

definition listed_instances :: "response \<Rightarrow> py list" where
  "listed_instances r =
     (case body r of
        Some (PList xs) \<Rightarrow> xs
      | Some (PDict ((k, PList xs) # rest)) \<Rightarrow> if k = ''instances'' then xs else []
      | _ \<Rightarrow> [])"

text \<open>
  An example deployment. The tables \<^verbatim>\<open>dev-*\<close> have the key schema of \<^verbatim>\<open>src/lambda\<close>
  (\<^verbatim>\<open>model_id\<close>, \<^verbatim>\<open>instance_id\<close>), the tables \<^verbatim>\<open>prod-*\<close> that of
  \<^verbatim>\<open>lambda_function.py\<close> (\<^verbatim>\<open>id\<close>). Every instance belongs to the user \<^verbatim>\<open>alice\<close>, and the
  per-user maximum is 1.
\<close>

definition example_running_instance :: item where
  "example_running_instance =
     [(''instance_id'', PStr ''11111111-aaaa''),
      (''model_id'', PStr ''llama2:7b''),
      (''user_id'', PStr ''alice''),
      (''service_name'', PStr ''ollama-11111111''),
      (''ecs_service_arn'', PStr ''arn:service/ollama-11111111''),
      (''target_group_arn'', PStr ''arn:targetgroup/ollama-11111111''),
      (''status'', PStr ''running''),
      (''created_at'', PStr ''2024-05-01T08:00:00+00:00'')]"

definition example_stopped_instance :: item where
  "example_stopped_instance =
     [(''instance_id'', PStr ''22222222-bbbb''),
      (''model_id'', PStr ''llama2:7b''),
      (''user_id'', PStr ''alice''),
      (''service_name'', PStr ''ollama-22222222''),
      (''ecs_service_arn'', PStr ''arn:service/ollama-22222222''),
      (''target_group_arn'', PStr ''arn:targetgroup/ollama-22222222''),
      (''status'', PStr ''stopped''),
      (''created_at'', PStr ''2024-04-01T08:00:00+00:00'')]"

definition example_task_instance :: item where
  "example_task_instance =
     [(''id'', PStr ''33333333-cccc''),
      (''user_id'', PStr ''alice''),
      (''model_id'', PStr ''llama2:7b''),
      (''model_name'', PStr ''Llama 2 7B''),
      (''status'', PStr ''running''),
      (''instance_type'', PStr ''ml.m5.large''),
      (''task_arn'', PStr ''arn:task/3''),
      (''created_at'', PStr ''2024-05-01T08:00:00+00:00''),
      (''updated_at'', PStr ''2024-05-01T08:00:00+00:00''),
      (''estimated_cost'', PStr ''$0.12/hour''),
      (''endpoint'', PStr ''https://33333333-cccc.localhost/api'')]"

definition example_tables :: "(string \<times> table) list" where
  "example_tables =
     [(''dev-models'',
         \<lparr>key_name = ''model_id'',
          rows = [[(''model_id'', PStr ''llama2:7b''),
                   (''model_name'', PStr ''Llama 2 7B''),
                   (''is_active'', PBool True)]]\<rparr>),
      (''dev-instances'',
         \<lparr>key_name = ''instance_id'',
          rows = [example_running_instance, example_stopped_instance]\<rparr>),
      (''prod-models'',
         \<lparr>key_name = ''id'',
          rows = [[(''id'', PStr ''llama2:7b''), (''name'', PStr ''Llama 2 7B'')]]\<rparr>),
      (''prod-instances'',
         \<lparr>key_name = ''id'', rows = [example_task_instance]\<rparr>)]"

definition example_environ :: "string \<Rightarrow> (string \<times> string) list" where
  "example_environ stage =
     [(''ENVIRONMENT'', stage),
      (''ECS_CLUSTER_NAME'', stage @ ''-ollama-cluster''),
      (''MODELS_TABLE_NAME'', stage @ ''-models''),
      (''INSTANCES_TABLE_NAME'', stage @ ''-instances''),
      (''MAX_INSTANCES_PER_USER'', ''1''),
      (''AWS_REGION'', ''us-east-1''),
      (''CPU_TASK_DEFINITION_ARN'', ''arn:task-definition/cpu''),
      (''GPU_TASK_DEFINITION_ARN'', ''arn:task-definition/gpu''),
      (''PRIVATE_SUBNET_IDS'', ''subnet-a,subnet-b''),
      (''ECS_SECURITY_GROUP_ID'', ''sg-1'')]"

text \<open>
  The example world of the stage \<open>stage\<close> (\<^verbatim>\<open>dev\<close> or \<^verbatim>\<open>prod\<close>), in which the orchestration
  service reports one active service with the given desired and running counts, scaling a
  service down fails, and the log store has one stream with two events and reports a
  missing log group before it checks the parameters of a listing.
\<close>

definition example_world :: "string \<Rightarrow> int \<Rightarrow> int \<Rightarrow> world" where
  "example_world stage desired running =
     \<lparr>environ = example_environ stage,
      tables = example_tables,
      ddb_fault = (\<lambda>op tname. None),
      uuid4 = ''44444444-dddd'',
      now_iso = ''2024-06-01T12:00:00+00:00'',
      now_timestamp = 1717243200,
      fromtimestamp_iso =
        (\<lambda>ms. if ms = 1000 then Inr ''1970-01-01T00:00:01+00:00''
              else if ms = 2000 then Inr ''1970-01-01T00:00:02+00:00''
              else Inl (ValueError ''year is out of range'')),
      ecs_run_task = (\<lambda>params. Inr [''arn:task/4'']),
      ecs_describe_tasks = (\<lambda>cluster task. Inr [Some ''RUNNING'']),
      ecs_describe_services =
        (\<lambda>cluster service.
           Inr [\<lparr>serviceArn = Some ''arn:service/1'', taskDefinition = None,
                 status = Some ''ACTIVE'', desiredCount = Some desired,
                 runningCount = Some running, pendingCount = None,
                 platformVersion = None, launchType = Some ''FARGATE'',
                 createdAt = None\<rparr>]),
      ecs_register_task_definition = (\<lambda>params. Inr ''arn:task-definition/4''),
      ecs_create_service = (\<lambda>params. Inr ''arn:service/4''),
      ecs_update_service = (\<lambda>params. Some (ClientError ''ServiceNotFoundException'')),
      elbv2_create_target_group = (\<lambda>params. Inr [''arn:targetgroup/4'']),
      logs_describe_log_streams = (\<lambda>log_group prefix. Inr [''ollama-11111111/ollama/1'']),
      logs_missing_group_first = True,
      logs_get_log_events =
        (\<lambda>log_group stream.
           Inr [\<lparr>timestamp = 1000, message = ''pulling model''\<rparr>,
                \<lparr>timestamp = 2000, message = ''listening''\<rparr>]),
      calls = []\<rparr>"

definition example_user :: "string \<Rightarrow> string list \<Rightarrow> user_info" where
  "example_user name gs = \<lparr>user_id = Some name, email = None, username = None, groups = gs\<rparr>"

definition example_event :: "string \<Rightarrow> string \<Rightarrow> string \<Rightarrow> item \<Rightarrow> event" where
  "example_event method p name b =
     \<lparr>httpMethod = Some method, path = Some p, claims = [(''sub'', name)], json_body = Inr b\<rparr>"

section \<open>Verified properties\<close>

subsection \<open>Cost estimate\<close>

text \<open>
  Claim C9, as amended. The cost-estimate lookup \<^verbatim>\<open>get_estimated_cost\<close> is a function of
  the instance-size selector alone, and it returns a rate for every selector that is
  hashable (a string, a number, a boolean or null): each of the six sizes of the rate table
  maps to its fixed per-hour rate string, and every other hashable selector maps to the
  zero-cost sentinel \<^verbatim>\<open>$0.00/hour\<close>, without raising.
\<close>

theorem get_estimated_cost_lookup:
  "get_estimated_cost (PStr ''ml.m5.large'') = Inr ''$0.12/hour'' \<and>
   get_estimated_cost (PStr ''ml.m5.xlarge'') = Inr ''$0.24/hour'' \<and>
   get_estimated_cost (PStr ''ml.m5.2xlarge'') = Inr ''$0.48/hour'' \<and>
   get_estimated_cost (PStr ''ml.g4dn.xlarge'') = Inr ''$0.71/hour'' \<and>
   get_estimated_cost (PStr ''ml.g4dn.2xlarge'') = Inr ''$1.42/hour'' \<and>
   get_estimated_cost (PStr ''ml.p3.2xlarge'') = Inr ''$3.06/hour'' \<and>
   (hashable selector \<and>
    selector \<notin> {PStr ''ml.m5.large'', PStr ''ml.m5.xlarge'', PStr ''ml.m5.2xlarge'',
                  PStr ''ml.g4dn.xlarge'', PStr ''ml.g4dn.2xlarge'', PStr ''ml.p3.2xlarge''}
      \<longrightarrow> get_estimated_cost selector = Inr ''$0.00/hour'')"
  by (cases selector)
     (simp_all add: get_estimated_cost_def dict_get_value_def dict_get_default_def)

text \<open>The witness: a size that is not in the table, a number and null.\<close>

theorem get_estimated_cost_lookup_witness:
  "hashable (PStr ''ml.t3.nano'') \<and>
   PStr ''ml.t3.nano'' \<notin> {PStr ''ml.m5.large'', PStr ''ml.m5.xlarge'', PStr ''ml.m5.2xlarge'',
                  PStr ''ml.g4dn.xlarge'', PStr ''ml.g4dn.2xlarge'', PStr ''ml.p3.2xlarge''} \<and>
   get_estimated_cost (PStr ''ml.t3.nano'') = Inr ''$0.00/hour'' \<and>
   hashable (PInt 4) \<and> get_estimated_cost (PInt 4) = Inr ''$0.00/hour'' \<and>
   hashable PNone \<and> get_estimated_cost PNone = Inr ''$0.00/hour''"
  using get_estimated_cost_lookup [of "PStr ''ml.t3.nano''"]
    get_estimated_cost_lookup [of "PInt 4"] get_estimated_cost_lookup [of PNone]
  by simp

text \<open>
  The claim as stated fails for a selector that is unhashable: \<^verbatim>\<open>dict.get\<close> raises
  \<^verbatim>\<open>TypeError\<close> on a list and on a dictionary. The selector is the field
  \<^verbatim>\<open>instanceType\<close> of the request body, which \<^verbatim>\<open>create_instance\<close> passes on as it was
  parsed: a request whose \<^verbatim>\<open>instanceType\<close> is a JSON array is answered 500, after the
  task has been started and before a record is stored.
\<close>

theorem get_estimated_cost_unhashable_counterexample:
  "get_estimated_cost (PList []) =
     Inl (TypeError (''unhashable type: '' @ [CHR 0x27] @ ''list'' @ [CHR 0x27])) \<and>
   get_estimated_cost (PDict [(''size'', PStr ''ml.m5.large'')]) =
     Inl (TypeError (''unhashable type: '' @ [CHR 0x27] @ ''dict'' @ [CHR 0x27])) \<and>
   statusCode (fst (create_instance
      (example_event ''POST'' ''/instances'' ''alice''
         [(''modelId'', PStr ''llama2:7b''), (''instanceType'', PList [])])
      (example_user ''alice'' []) (example_world ''prod'' 1 1))) = 500 \<and>
   length (calls (snd (create_instance
      (example_event ''POST'' ''/instances'' ''alice''
         [(''modelId'', PStr ''llama2:7b''), (''instanceType'', PList [])])
      (example_user ''alice'' []) (example_world ''prod'' 1 1)))) = 1 \<and>
   length (instance_rows (snd (create_instance
      (example_event ''POST'' ''/instances'' ''alice''
         [(''modelId'', PStr ''llama2:7b''), (''instanceType'', PList [])])
      (example_user ''alice'' []) (example_world ''prod'' 1 1)))) = 1"
  by code_simp

subsection \<open>Auxiliary facts\<close>

lemma environ_item_get:
  "environ_item w k = (case environ_get w k of None \<Rightarrow> Inl (KeyError k) | Some v \<Rightarrow> Inr v)"
  by (simp add: environ_item_def environ_get_def dict_item_def)

text \<open>\<open>split\<close> returns at least one part, so the last part exists.\<close>

lemma split_not_Nil: "split c s \<noteq> []"
  by (induction s) (auto split: list.splits)

lemma lookup_model_env:
  "lookup_model w kattr k = Inr r \<Longrightarrow>
   \<exists>t. environ_item w ''MODELS_TABLE_NAME'' = Inr t \<and> get_item w t kattr k = Inr r"
  by (auto simp add: lookup_model_def split: sum.splits)

lemma lookup_instance_env:
  "lookup_instance w kattr k = Inr r \<Longrightarrow>
   \<exists>t. environ_item w ''INSTANCES_TABLE_NAME'' = Inr t \<and> get_item w t kattr k = Inr r"
  by (auto simp add: lookup_instance_def split: sum.splits)

lemma get_item_table:
  "get_item w tname kattr k = Inr r \<Longrightarrow>
   \<exists>t. ddb_fault w GetItem tname = None \<and> map_of (tables w) tname = Some t \<and>
       key_name t = kattr \<and> find (has_key t k) (rows t) = r"
  by (auto simp add: get_item_def ddb_table_def split: sum.splits option.splits if_splits)

lemma find_append_filter:
  "P new \<Longrightarrow> find P (filter (\<lambda>x. \<not> P x) rs @ [new]) = Some new"
  by (induction rs) auto

lemma has_key_rows [simp]: "has_key (t\<lparr>rows := rs\<rparr>) k = has_key t k"
  by (rule ext) (simp add: has_key_def)

lemma ddb_table_calls [simp]: "ddb_table (w\<lparr>calls := cs\<rparr>) op t = ddb_table w op t"
  by (simp add: ddb_table_def split: option.splits)

lemma environ_item_calls [simp]: "environ_item (w\<lparr>calls := cs\<rparr>) k = environ_item w k"
  by (simp add: environ_item_def)

text \<open>The cleanup calls of \<open>stop_model\<close> change nothing but the list of calls.\<close>

lemma stop_ecs_service_calls:
  "stop_ecs_service inst w = w\<lparr>calls := calls (stop_ecs_service inst w)\<rparr>"
  unfolding stop_ecs_service_def issue_def
  by (simp add: Let_def split: sum.splits option.splits)

lemma delete_target_group_calls:
  "delete_target_group inst w = w\<lparr>calls := calls (delete_target_group inst w)\<rparr>"
  by (simp add: delete_target_group_def issue_def)

subsection \<open>Creating an instance: unknown model, quota\<close>

lemma create_instance_unknown_model:
  assumes "json_body ev = Inr b" and "map_of b ''modelId'' = Some (PStr model_id)" and "model_id \<noteq> []"
    and "lookup_model w ''id'' model_id = Inr None"
  shows "create_instance ev user w = (error_lf 404 ''Model not found'', w)"
proof -
  from assms(4) obtain t where "environ_item w ''MODELS_TABLE_NAME'' = Inr t"
    and "get_item w t ''id'' model_id = Inr None"
    using lookup_model_env by blast
  with assms(1-3) show ?thesis
    by (simp add: create_instance_def create_instance_try_def dict_get_def table_key_def)
qed

lemma start_model_unknown_model:
  assumes "json_body ev = Inr b" and "map_of b ''model_id'' = Some (PStr model_id)" and "model_id \<noteq> []"
    and "lookup_model w ''model_id'' model_id = Inr None"
  shows "start_model ev user w = (create_error_response 404 ''Model not found'', w)"
proof -
  from assms(4) obtain t where "environ_item w ''MODELS_TABLE_NAME'' = Inr t"
    and "get_item w t ''model_id'' model_id = Inr None"
    using lookup_model_env by blast
  with assms(1-3) show ?thesis
    by (simp add: start_model_def start_model_try_def dict_get_def table_key_def)
qed

lemma start_model_limit:
  assumes "json_body ev = Inr b" and "map_of b ''model_id'' = Some (PStr model_id)" and "model_id \<noteq> []"
    and "lookup_model w ''model_id'' model_id = Inr (Some model)"
    and "\<not> check_user_instance_limits w (user_id user)"
  shows "start_model ev user w = (create_error_response 429 ''Instance limit exceeded'', w)"
proof -
  from assms(4) obtain t where "environ_item w ''MODELS_TABLE_NAME'' = Inr t"
    and "get_item w t ''model_id'' model_id = Inr (Some model)"
    using lookup_model_env by blast
  with assms(1-3,5) show ?thesis
    by (simp add: start_model_def start_model_try_def dict_get_def table_key_def)
qed

lemma check_limit_query_fails:
  assumes "environ_get w ''INSTANCES_TABLE_NAME'' = Some t" and "query_user w t uid = Inl e"
  shows "\<not> check_user_instance_limits w uid"
  using assms
  by (simp add: check_user_instance_limits_def environ_item_get query_user_status_in_def)

lemma query_user_rows:
  assumes "environ_get w ''INSTANCES_TABLE_NAME'' = Some t"
    and "query_user_status_in w t (Some u) [''running'', ''starting''] = Inr items"
  shows "items = active_instances_of w u"
  using assms
  by (auto simp add: query_user_status_in_def query_user_def ddb_table_def active_instances_of_def
      instance_rows_def split: sum.splits option.splits intro: filter_cong)

lemma check_limit_count:
  assumes "check_user_instance_limits w (Some u)"
    and "py_int (case environ_get w ''MAX_INSTANCES_PER_USER'' of None \<Rightarrow> ''5'' | Some s \<Rightarrow> s) =
         Some max_instances"
  shows "int (length (active_instances_of w u)) < max_instances"
proof -
  from assms(1) obtain t items where t: "environ_get w ''INSTANCES_TABLE_NAME'' = Some t"
    and q: "query_user_status_in w t (Some u) [''running'', ''starting''] = Inr items"
    by (auto simp add: check_user_instance_limits_def environ_item_get split: sum.splits option.splits)
  from query_user_rows [OF t q] have "items = active_instances_of w u" .
  with assms t q show ?thesis
    by (simp add: check_user_instance_limits_def environ_item_get dict_get_default_def environ_get_def)
qed

text \<open>
  Claim C4. A create request whose model identifier does not resolve in the Model Catalog
  is answered 404 "Model not found", on both surfaces (\<^verbatim>\<open>create_instance\<close> of
  \<^verbatim>\<open>POST /instances\<close>, \<^verbatim>\<open>start_model\<close> of \<^verbatim>\<open>POST /models/start\<close>). The world returned is
  the world given: no table has changed, so no Instance record is persisted, and the list
  of service calls has not grown, so no provisioning call was issued.
\<close>

theorem create_unknown_model_not_found:
  "(json_body ev = Inr b \<and> map_of b ''modelId'' = Some (PStr model_id) \<and> model_id \<noteq> [] \<and>
    lookup_model w ''id'' model_id = Inr None \<longrightarrow>
      create_instance ev user w =
        (\<lparr>statusCode = 404, headers = cors_headers,
          body = Some (PDict [(''error'', PStr ''Model not found'')])\<rparr>, w)) \<and>
   (json_body ev = Inr b \<and> map_of b ''model_id'' = Some (PStr model_id) \<and> model_id \<noteq> [] \<and>
    lookup_model w ''model_id'' model_id = Inr None \<longrightarrow>
      start_model ev user w =
        (\<lparr>statusCode = 404, headers = response_headers,
          body = Some (PDict [(''error'', PStr ''Model not found'')])\<rparr>, w))"
proof (intro conjI impI)
  assume "json_body ev = Inr b \<and> map_of b ''modelId'' = Some (PStr model_id) \<and> model_id \<noteq> [] \<and>
    lookup_model w ''id'' model_id = Inr None"
  then show "create_instance ev user w =
        (\<lparr>statusCode = 404, headers = cors_headers,
          body = Some (PDict [(''error'', PStr ''Model not found'')])\<rparr>, w)"
    using create_instance_unknown_model [of ev b model_id w user]
    by (simp add: error_lf_def response_lf_def)
next
  assume "json_body ev = Inr b \<and> map_of b ''model_id'' = Some (PStr model_id) \<and> model_id \<noteq> [] \<and>
    lookup_model w ''model_id'' model_id = Inr None"
  then show "start_model ev user w =
        (\<lparr>statusCode = 404, headers = response_headers,
          body = Some (PDict [(''error'', PStr ''Model not found'')])\<rparr>, w)"
    using start_model_unknown_model [of ev b model_id w user]
    by (simp add: create_error_response_def)
qed

theorem create_unknown_model_not_found_witness:
  "json_body (example_event ''POST'' ''/instances'' ''alice'' [(''modelId'', PStr ''gpt-unknown'')]) =
     Inr [(''modelId'', PStr ''gpt-unknown'')] \<and>
   map_of [(''modelId'', PStr ''gpt-unknown'')] ''modelId'' = Some (PStr ''gpt-unknown'') \<and>
   ''gpt-unknown'' \<noteq> [] \<and>
   lookup_model (example_world ''prod'' 1 1) ''id'' ''gpt-unknown'' = Inr None \<and>
   create_instance (example_event ''POST'' ''/instances'' ''alice'' [(''modelId'', PStr ''gpt-unknown'')])
       (example_user ''alice'' []) (example_world ''prod'' 1 1) =
     (\<lparr>statusCode = 404, headers = cors_headers,
       body = Some (PDict [(''error'', PStr ''Model not found'')])\<rparr>, example_world ''prod'' 1 1)"
proof -
  have h1: "json_body (example_event ''POST'' ''/instances'' ''alice'' [(''modelId'', PStr ''gpt-unknown'')]) =
     Inr [(''modelId'', PStr ''gpt-unknown'')]"
    by (simp add: example_event_def)
  have h2: "lookup_model (example_world ''prod'' 1 1) ''id'' ''gpt-unknown'' = Inr None"
    by code_simp
  show ?thesis
    using h1 h2 create_unknown_model_not_found
      [of "example_event ''POST'' ''/instances'' ''alice'' [(''modelId'', PStr ''gpt-unknown'')]"
          "[(''modelId'', PStr ''gpt-unknown'')]" "''gpt-unknown''" "example_world ''prod'' 1 1"
          "example_user ''alice'' []"]
    by simp
qed

text \<open>
  Claim C10. The per-user limit check fails closed. When the store query that counts the
  caller's active instances raises, \<^verbatim>\<open>check_user_instance_limits\<close> returns \<^verbatim>\<open>False\<close>, and a
  create request that has reached the check (its body names a model of the catalog) is
  answered 429 with the world unchanged: nothing is provisioned and nothing is persisted.
\<close>

theorem limit_check_fails_closed:
  assumes "environ_get w ''INSTANCES_TABLE_NAME'' = Some instances_table"
    and "query_user w instances_table (user_id user) = Inl e"
  shows "\<not> check_user_instance_limits w (user_id user) \<and>
         (json_body ev = Inr b \<and> map_of b ''model_id'' = Some (PStr model_id) \<and> model_id \<noteq> [] \<and>
          lookup_model w ''model_id'' model_id = Inr (Some model) \<longrightarrow>
            start_model ev user w =
              (\<lparr>statusCode = 429, headers = response_headers,
                body = Some (PDict [(''error'', PStr ''Instance limit exceeded'')])\<rparr>, w))"
proof -
  have closed: "\<not> check_user_instance_limits w (user_id user)"
    using assms by (rule check_limit_query_fails)
  then show ?thesis
    using start_model_limit [of ev b model_id w model user]
    by (simp add: create_error_response_def)
qed

text \<open>The witness: the user \<^verbatim>\<open>bob\<close> owns no instance, and the query of the store is throttled.\<close>

theorem limit_check_fails_closed_witness:
  "environ_get ((example_world ''dev'' 1 1)
      \<lparr>ddb_fault := (\<lambda>op t. if op = Query then Some (ClientError ''ThrottlingException'') else None)\<rparr>)
      ''INSTANCES_TABLE_NAME'' = Some ''dev-instances'' \<and>
   query_user ((example_world ''dev'' 1 1)
      \<lparr>ddb_fault := (\<lambda>op t. if op = Query then Some (ClientError ''ThrottlingException'') else None)\<rparr>)
      ''dev-instances'' (user_id (example_user ''bob'' [])) = Inl (ClientError ''ThrottlingException'') \<and>
   active_instances_of (example_world ''dev'' 1 1) ''bob'' = [] \<and>
   \<not> check_user_instance_limits ((example_world ''dev'' 1 1)
      \<lparr>ddb_fault := (\<lambda>op t. if op = Query then Some (ClientError ''ThrottlingException'') else None)\<rparr>)
      (user_id (example_user ''bob'' [])) \<and>
   statusCode (fst (start_model
      (example_event ''POST'' ''/models/start'' ''bob'' [(''model_id'', PStr ''llama2:7b'')])
      (example_user ''bob'' [])
      ((example_world ''dev'' 1 1)
        \<lparr>ddb_fault := (\<lambda>op t. if op = Query then Some (ClientError ''ThrottlingException'') else None)\<rparr>))) = 429"
proof -
  let ?w = "(example_world ''dev'' 1 1)
      \<lparr>ddb_fault := (\<lambda>op t. if op = Query then Some (ClientError ''ThrottlingException'') else None)\<rparr>"
  let ?ev = "example_event ''POST'' ''/models/start'' ''bob'' [(''model_id'', PStr ''llama2:7b'')]"
  have h1: "environ_get ?w ''INSTANCES_TABLE_NAME'' = Some ''dev-instances''"
    by (simp add: environ_get_def example_world_def example_environ_def)
  have h2: "query_user ?w ''dev-instances'' (user_id (example_user ''bob'' [])) =
              Inl (ClientError ''ThrottlingException'')"
    by (simp add: query_user_def ddb_table_def example_world_def)
  have h3: "active_instances_of (example_world ''dev'' 1 1) ''bob'' = []"
    by code_simp
  have h4: "json_body ?ev = Inr [(''model_id'', PStr ''llama2:7b'')]"
    by (simp add: example_event_def)
  have h5: "lookup_model ?w ''model_id'' ''llama2:7b'' =
              Inr (Some [(''model_id'', PStr ''llama2:7b''), (''model_name'', PStr ''Llama 2 7B''),
                         (''is_active'', PBool True)])"
    by (simp add: lookup_model_def environ_item_def dict_item_def get_item_def ddb_table_def
        example_world_def example_environ_def example_tables_def has_key_def)
  from limit_check_fails_closed [OF h1 h2, of ?ev "[(''model_id'', PStr ''llama2:7b'')]" "''llama2:7b''"]
    h4 h5
  have "\<not> check_user_instance_limits ?w (user_id (example_user ''bob'' []))"
    and "statusCode (fst (start_model ?ev (example_user ''bob'' []) ?w)) = 429"
    by simp_all
  with h1 h2 h3 show ?thesis by simp
qed

text \<open>
  Claim C3, as amended. On the surface that has a quota (\<^verbatim>\<open>POST /models/start\<close>), a create
  request that names a model of the catalog, made when the caller's number of active
  instances (status "starting" or "running") has reached the configured maximum
  \<^verbatim>\<open>int(MAX_INSTANCES_PER_USER)\<close> (5 when unset), is answered 429 "Instance limit exceeded",
  and the world is unchanged: no Instance record is persisted and no call is issued.
\<close>

theorem start_model_quota_enforced:
  assumes "json_body ev = Inr b"
    and "map_of b ''model_id'' = Some (PStr model_id)"
    and "model_id \<noteq> []"
    and "lookup_model w ''model_id'' model_id = Inr (Some model)"
    and "user_id user = Some u"
    and "py_int (case environ_get w ''MAX_INSTANCES_PER_USER'' of None \<Rightarrow> ''5'' | Some s \<Rightarrow> s) =
         Some max_instances"
    and "max_instances \<le> int (length (active_instances_of w u))"
  shows "start_model ev user w =
           (\<lparr>statusCode = 429, headers = response_headers,
             body = Some (PDict [(''error'', PStr ''Instance limit exceeded'')])\<rparr>, w)"
proof -
  have "\<not> check_user_instance_limits w (user_id user)"
    using check_limit_count [of w u max_instances] assms(5-7) by auto
  with assms(1-4) show ?thesis
    using start_model_limit [of ev b model_id w model user]
    by (simp add: create_error_response_def)
qed

theorem start_model_quota_enforced_witness:
  "json_body (example_event ''POST'' ''/models/start'' ''alice'' [(''model_id'', PStr ''llama2:7b'')]) =
     Inr [(''model_id'', PStr ''llama2:7b'')] \<and>
   lookup_model (example_world ''dev'' 1 1) ''model_id'' ''llama2:7b'' =
     Inr (Some [(''model_id'', PStr ''llama2:7b''), (''model_name'', PStr ''Llama 2 7B''),
                (''is_active'', PBool True)]) \<and>
   py_int (case environ_get (example_world ''dev'' 1 1) ''MAX_INSTANCES_PER_USER'' of
             None \<Rightarrow> ''5'' | Some s \<Rightarrow> s) = Some 1 \<and>
   (1::int) \<le> int (length (active_instances_of (example_world ''dev'' 1 1) ''alice'')) \<and>
   start_model (example_event ''POST'' ''/models/start'' ''alice'' [(''model_id'', PStr ''llama2:7b'')])
       (example_user ''alice'' []) (example_world ''dev'' 1 1) =
     (\<lparr>statusCode = 429, headers = response_headers,
       body = Some (PDict [(''error'', PStr ''Instance limit exceeded'')])\<rparr>,
      example_world ''dev'' 1 1)"
proof -
  let ?w = "example_world ''dev'' 1 1"
  let ?ev = "example_event ''POST'' ''/models/start'' ''alice'' [(''model_id'', PStr ''llama2:7b'')]"
  have h1: "json_body ?ev = Inr [(''model_id'', PStr ''llama2:7b'')]"
    by (simp add: example_event_def)
  have h2: "map_of [(''model_id'', PStr ''llama2:7b'')] ''model_id'' = Some (PStr ''llama2:7b'')" by simp
  have h3: "''llama2:7b'' \<noteq> []" by simp
  have h4: "lookup_model ?w ''model_id'' ''llama2:7b'' =
     Inr (Some [(''model_id'', PStr ''llama2:7b''), (''model_name'', PStr ''Llama 2 7B''),
                (''is_active'', PBool True)])"
    by code_simp
  have h5: "user_id (example_user ''alice'' []) = Some ''alice''"
    by (simp add: example_user_def)
  have h6: "py_int (case environ_get ?w ''MAX_INSTANCES_PER_USER'' of
             None \<Rightarrow> ''5'' | Some s \<Rightarrow> s) = Some 1"
    by code_simp
  have h7: "(1::int) \<le> int (length (active_instances_of ?w ''alice''))"
    by code_simp
  from start_model_quota_enforced [OF h1 h2 h3 h4 h5 h6 h7] h1 h4 h6 h7
  show ?thesis by simp
qed

text \<open>
  The claim as stated fails twice. With the caller at the maximum, a request for an unknown
  model is answered 404, not 429: \<^verbatim>\<open>start_model\<close> resolves the model before it checks the
  limit. And \<^verbatim>\<open>create_instance\<close> (\<^verbatim>\<open>POST /instances\<close>) has no limit check at all: with the
  caller at the maximum it answers 201 and persists a second record.
\<close>

theorem create_at_quota_counterexample:
  "py_int (case environ_get (example_world ''dev'' 1 1) ''MAX_INSTANCES_PER_USER'' of
             None \<Rightarrow> ''5'' | Some s \<Rightarrow> s) = Some 1 \<and>
   length (active_instances_of (example_world ''dev'' 1 1) ''alice'') = 1 \<and>
   statusCode (fst (start_model
      (example_event ''POST'' ''/models/start'' ''alice'' [(''model_id'', PStr ''gpt-unknown'')])
      (example_user ''alice'' []) (example_world ''dev'' 1 1))) = 404 \<and>
   py_int (case environ_get (example_world ''prod'' 1 1) ''MAX_INSTANCES_PER_USER'' of
             None \<Rightarrow> ''5'' | Some s \<Rightarrow> s) = Some 1 \<and>
   length (active_instances_of (example_world ''prod'' 1 1) ''alice'') = 1 \<and>
   statusCode (fst (create_instance
      (example_event ''POST'' ''/instances'' ''alice'' [(''modelId'', PStr ''llama2:7b'')])
      (example_user ''alice'' []) (example_world ''prod'' 1 1))) = 201 \<and>
   length (instance_rows (snd (create_instance
      (example_event ''POST'' ''/instances'' ''alice'' [(''modelId'', PStr ''llama2:7b'')])
      (example_user ''alice'' []) (example_world ''prod'' 1 1)))) = 2"
  by code_simp

subsection \<open>Deployment configuration\<close>

text \<open>
  Claim C5. \<^verbatim>\<open>get_task_configuration\<close> is a static lookup on the instance size (with the
  task-definition names of the environment): a size of the GPU class selects the EC2
  profile with the GPU task definition and one placement constraint that pins the exact
  instance type; a size of the large-CPU class selects the EC2 profile, with the CPU task
  definition, and the same constraint; every other size, also one that is not a string,
  selects the Fargate profile with the CPU task definition and no placement constraint.
\<close>

theorem get_task_configuration_profiles:
  assumes cpu: "environ_get w ''CPU_TASK_DEFINITION_ARN'' = Some cpu_arn"
  shows
    "(instance_type \<in> {''ml.g4dn.xlarge'', ''ml.g4dn.2xlarge'', ''ml.p3.2xlarge''} \<and>
      environ_get w ''GPU_TASK_DEFINITION_ARN'' = Some gpu_arn \<longrightarrow>
        (\<exists>config. get_task_configuration w model_id (PStr instance_type) = Inr config \<and>
           launch_type config = ''EC2'' \<and>
           task_definition config = gpu_arn \<and>
           placement_constraints config =
             Some [PDict [(''type'', PStr ''memberOf''),
                          (''expression'', PStr (''attribute:ecs.instance-type == '' @ instance_type))]])) \<and>
     (instance_type \<in> {''ml.m5.2xlarge'', ''ml.m5.4xlarge'', ''ml.c5.4xlarge''} \<longrightarrow>
        (\<exists>config. get_task_configuration w model_id (PStr instance_type) = Inr config \<and>
           launch_type config = ''EC2'' \<and>
           task_definition config = cpu_arn \<and>
           placement_constraints config =
             Some [PDict [(''type'', PStr ''memberOf''),
                          (''expression'', PStr (''attribute:ecs.instance-type == '' @ instance_type))]])) \<and>
     (selector \<notin> {PStr ''ml.g4dn.xlarge'', PStr ''ml.g4dn.2xlarge'', PStr ''ml.p3.2xlarge'',
                    PStr ''ml.m5.2xlarge'', PStr ''ml.m5.4xlarge'', PStr ''ml.c5.4xlarge''} \<longrightarrow>
        (\<exists>config. get_task_configuration w model_id selector = Inr config \<and>
           launch_type config = ''FARGATE'' \<and>
           task_definition config = cpu_arn \<and>
           placement_constraints config = None))"
proof (intro conjI impI)
  assume "instance_type \<in> {''ml.g4dn.xlarge'', ''ml.g4dn.2xlarge'', ''ml.p3.2xlarge''} \<and>
      environ_get w ''GPU_TASK_DEFINITION_ARN'' = Some gpu_arn"
  then show "\<exists>config. get_task_configuration w model_id (PStr instance_type) = Inr config \<and>
           launch_type config = ''EC2'' \<and>
           task_definition config = gpu_arn \<and>
           placement_constraints config =
             Some [PDict [(''type'', PStr ''memberOf''),
                          (''expression'', PStr (''attribute:ecs.instance-type == '' @ instance_type))]]"
    using cpu
    by (auto simp add: get_task_configuration_def environ_item_get gpu_instance_types_def
        member_of_instance_type_def)
next
  assume "instance_type \<in> {''ml.m5.2xlarge'', ''ml.m5.4xlarge'', ''ml.c5.4xlarge''}"
  then show "\<exists>config. get_task_configuration w model_id (PStr instance_type) = Inr config \<and>
           launch_type config = ''EC2'' \<and>
           task_definition config = cpu_arn \<and>
           placement_constraints config =
             Some [PDict [(''type'', PStr ''memberOf''),
                          (''expression'', PStr (''attribute:ecs.instance-type == '' @ instance_type))]]"
    using cpu
    by (auto simp add: get_task_configuration_def environ_item_get gpu_instance_types_def
        large_cpu_types_def member_of_instance_type_def)
next
  assume "selector \<notin> {PStr ''ml.g4dn.xlarge'', PStr ''ml.g4dn.2xlarge'', PStr ''ml.p3.2xlarge'',
                    PStr ''ml.m5.2xlarge'', PStr ''ml.m5.4xlarge'', PStr ''ml.c5.4xlarge''}"
  then show "\<exists>config. get_task_configuration w model_id selector = Inr config \<and>
           launch_type config = ''FARGATE'' \<and>
           task_definition config = cpu_arn \<and>
           placement_constraints config = None"
    using cpu
    by (auto simp add: get_task_configuration_def environ_item_get gpu_instance_types_def
        large_cpu_types_def)
qed

theorem get_task_configuration_profiles_witness:
  "environ_get (example_world ''prod'' 1 1) ''CPU_TASK_DEFINITION_ARN'' = Some ''arn:task-definition/cpu'' \<and>
   environ_get (example_world ''prod'' 1 1) ''GPU_TASK_DEFINITION_ARN'' = Some ''arn:task-definition/gpu'' \<and>
   (\<exists>config. get_task_configuration (example_world ''prod'' 1 1) ''llama2:7b'' (PStr ''ml.g4dn.xlarge'') = Inr config \<and>
      launch_type config = ''EC2'' \<and>
      task_definition config = ''arn:task-definition/gpu'' \<and>
      placement_constraints config =
        Some [PDict [(''type'', PStr ''memberOf''),
                     (''expression'', PStr ''attribute:ecs.instance-type == ml.g4dn.xlarge'')]]) \<and>
   (\<exists>config. get_task_configuration (example_world ''prod'' 1 1) ''llama2:7b'' (PStr ''ml.c5.4xlarge'') = Inr config \<and>
      launch_type config = ''EC2'' \<and>
      task_definition config = ''arn:task-definition/cpu'' \<and>
      placement_constraints config =
        Some [PDict [(''type'', PStr ''memberOf''),
                     (''expression'', PStr ''attribute:ecs.instance-type == ml.c5.4xlarge'')]]) \<and>
   (\<exists>config. get_task_configuration (example_world ''prod'' 1 1) ''llama2:7b'' (PStr ''ml.m5.large'') = Inr config \<and>
      launch_type config = ''FARGATE'' \<and>
      task_definition config = ''arn:task-definition/cpu'' \<and>
      placement_constraints config = None)"
proof -
  have h1: "environ_get (example_world ''prod'' 1 1) ''CPU_TASK_DEFINITION_ARN'' =
              Some ''arn:task-definition/cpu''"
    by (simp add: environ_get_def example_world_def example_environ_def)
  have h2: "environ_get (example_world ''prod'' 1 1) ''GPU_TASK_DEFINITION_ARN'' =
              Some ''arn:task-definition/gpu''"
    by (simp add: environ_get_def example_world_def example_environ_def)
  show ?thesis
    using h1 h2
      get_task_configuration_profiles [OF h1, of "''ml.g4dn.xlarge''" "''arn:task-definition/gpu''" "''llama2:7b''"]
      get_task_configuration_profiles [OF h1, of "''ml.c5.4xlarge''" "''arn:task-definition/gpu''" "''llama2:7b''"]
      get_task_configuration_profiles [OF h1, of _ _ "''llama2:7b''" "PStr ''ml.m5.large''"]
    by simp
qed

subsection \<open>Status reconciliation\<close>

text \<open>
  Claim C1. When the orchestration service reports the service of an instance as
  \<^verbatim>\<open>ACTIVE\<close>, the status \<^verbatim>\<open>get_ecs_service_status\<close> resolves is a function of the desired
  and the running count alone (an absent count reads as 0): desired 0 gives "stopped";
  running equal to desired, desired positive, gives "running"; running strictly between 0
  and desired gives "starting"; running 0 with desired positive gives "pending".
\<close>

theorem get_ecs_service_status_active:
  assumes "map_of inst ''service_name'' = Some service_name"
    and "map_of inst ''ecs_service_arn'' = Some arn"
    and "environ_get w ''ENVIRONMENT'' = Some stage"
    and "ecs_describe_services w
           (case environ_get w ''ECS_CLUSTER_NAME'' of
              None \<Rightarrow> stage @ ''-ollama-cluster'' | Some c \<Rightarrow> c)
           service_name = Inr (service # rest)"
    and "status service = Some ''ACTIVE''"
    and "desired = (case desiredCount service of None \<Rightarrow> 0 | Some n \<Rightarrow> n)"
    and "running = (case runningCount service of None \<Rightarrow> 0 | Some n \<Rightarrow> n)"
  shows "(desired = 0 \<longrightarrow> get_ecs_service_status w inst = PStr ''stopped'') \<and>
         (0 < desired \<and> running = desired \<longrightarrow> get_ecs_service_status w inst = PStr ''running'') \<and>
         (0 < running \<and> running < desired \<longrightarrow> get_ecs_service_status w inst = PStr ''starting'') \<and>
         (running = 0 \<and> 0 < desired \<longrightarrow> get_ecs_service_status w inst = PStr ''pending'')"
  using assms
  by (simp add: get_ecs_service_status_def environ_item_get dict_get_default_def dict_get_def
      environ_get_def)

text \<open>The witness: the four cases of the specification, desired/running = 2/2, 2/1, 2/0 and 0/0.\<close>

theorem get_ecs_service_status_active_witness:
  "map_of example_running_instance ''service_name'' = Some (PStr ''ollama-11111111'') \<and>
   map_of example_running_instance ''ecs_service_arn'' = Some (PStr ''arn:service/ollama-11111111'') \<and>
   environ_get (example_world ''dev'' 2 2) ''ENVIRONMENT'' = Some ''dev'' \<and>
   get_ecs_service_status (example_world ''dev'' 2 2) example_running_instance = PStr ''running'' \<and>
   get_ecs_service_status (example_world ''dev'' 2 1) example_running_instance = PStr ''starting'' \<and>
   get_ecs_service_status (example_world ''dev'' 2 0) example_running_instance = PStr ''pending'' \<and>
   get_ecs_service_status (example_world ''dev'' 0 0) example_running_instance = PStr ''stopped''"
proof -
  let ?svc = "\<lambda>d r. \<lparr>serviceArn = Some ''arn:service/1'', taskDefinition = None,
                 status = Some ''ACTIVE'', desiredCount = Some d,
                 runningCount = Some r, pendingCount = None,
                 platformVersion = None, launchType = Some ''FARGATE'',
                 createdAt = None\<rparr>"
  have h1: "map_of example_running_instance ''service_name'' = Some (PStr ''ollama-11111111'')"
    by (simp add: example_running_instance_def)
  have h2: "map_of example_running_instance ''ecs_service_arn'' = Some (PStr ''arn:service/ollama-11111111'')"
    by (simp add: example_running_instance_def)
  have h3: "environ_get (example_world ''dev'' d r) ''ENVIRONMENT'' = Some ''dev''" for d r
    by (simp add: environ_get_def example_world_def example_environ_def)
  have h4: "ecs_describe_services (example_world ''dev'' d r)
           (case environ_get (example_world ''dev'' d r) ''ECS_CLUSTER_NAME'' of
              None \<Rightarrow> ''dev'' @ ''-ollama-cluster'' | Some c \<Rightarrow> c)
           (PStr ''ollama-11111111'') = Inr (?svc d r # [])" for d r
    by (simp add: example_world_def)
  have c: "status (?svc d r) = Some ''ACTIVE''"
    "d = (case desiredCount (?svc d r) of None \<Rightarrow> 0 | Some n \<Rightarrow> n)"
    "r = (case runningCount (?svc d r) of None \<Rightarrow> 0 | Some n \<Rightarrow> n)" for d r :: int
    by simp_all
  note cases4 = get_ecs_service_status_active [OF h1 h2 h3 h4 c]
  from cases4 [of 2 2] cases4 [of 2 1] cases4 [of 2 0] cases4 [of 0 0] h1 h2 h3 [of 2 2]
  show ?thesis by simp
qed

subsection \<open>Stopping an instance\<close>

lemma stop_model_try_success:
  assumes look: "lookup_instance w ''instance_id'' instance_id = Inr (Some inst)"
    and owner: "map_of inst ''user_id'' = Some owner"
    and allowed: "\<not> access_denied owner user"
    and tbl: "environ_get w ''INSTANCES_TABLE_NAME'' = Some instances_table"
    and upd: "ddb_fault w UpdateItem instances_table = None"
  shows "\<exists>w' inst'.
           stop_model_try instance_id user w =
             (Inr \<lparr>statusCode = 200, headers = response_headers,
                   body = Some (PDict [(''instance_id'', PStr instance_id),
                                       (''status'', PStr ''stopped'')])\<rparr>, w') \<and>
           lookup_instance w' ''instance_id'' instance_id = Inr (Some inst') \<and>
           map_of inst' ''status'' = Some (PStr ''stopped'') \<and>
           map_of inst' ''stopped_at'' = Some (PStr (now_iso w)) \<and>
           map_of inst' ''user_id'' = Some owner"
proof -
  from look tbl have g: "get_item w instances_table ''instance_id'' instance_id = Inr (Some inst)"
    by (simp add: lookup_instance_def environ_item_get)
  from get_item_table [OF g] obtain t where
    t: "ddb_fault w GetItem instances_table = None" "map_of (tables w) instances_table = Some t"
       "key_name t = ''instance_id''" "find (has_key t instance_id) (rows t) = Some inst"
    by blast
  define cs2 where "cs2 = calls (delete_target_group inst (stop_ecs_service inst w))"
  have w2: "delete_target_group inst (stop_ecs_service inst w) = w\<lparr>calls := cs2\<rparr>"
    unfolding cs2_def
    by (subst delete_target_group_calls, subst (2) stop_ecs_service_calls) simp
  define new where
    "new = AList.update ''stopped_at'' (PStr (now_iso w)) (AList.update ''status'' (PStr ''stopped'') inst)"
  define t' where "t' = t\<lparr>rows := filter (\<lambda>x. \<not> has_key t instance_id x) (rows t) @ [new]\<rparr>"
  define w3 where "w3 = set_table instances_table t' (w\<lparr>calls := cs2\<rparr>)"
  have hk: "has_key t instance_id inst"
    using t(4) by (auto simp add: find_Some_iff)
  then have hk_new: "has_key t instance_id new"
    using t(3) by (simp add: has_key_def new_def AList.update_conv')
  have u: "update_item instances_table ''instance_id'' instance_id
             [(''status'', PStr ''stopped''), (''stopped_at'', PStr (now_iso w))] (w\<lparr>calls := cs2\<rparr>) = Inr w3"
    using t upd by (simp add: update_item_def ddb_table_def w3_def t'_def new_def)
  have r: "stop_model_try instance_id user w =
             (Inr \<lparr>statusCode = 200, headers = response_headers,
                   body = Some (PDict [(''instance_id'', PStr instance_id),
                                       (''status'', PStr ''stopped'')])\<rparr>, w3)"
    using g tbl owner allowed u w2
    by (simp add: stop_model_try_def environ_item_get dict_item_def Let_def
        create_success_response_def json_dumps_def)
  have l: "lookup_instance w3 ''instance_id'' instance_id = Inr (Some new)"
    using tbl t hk_new
    by (simp add: lookup_instance_def w3_def set_table_def environ_item_def environ_get_def
        dict_item_def get_item_def ddb_table_def AList.update_conv' t'_def find_append_filter)
  have "map_of new ''status'' = Some (PStr ''stopped'')"
    "map_of new ''stopped_at'' = Some (PStr (now_iso w))"
    "map_of new ''user_id'' = Some owner"
    using owner by (simp_all add: new_def AList.update_conv')
  with r l show ?thesis by blast
qed

text \<open>
  Claim C6. \<^verbatim>\<open>stop_model\<close> is idempotent at the record layer. For an instance whose stored
  status is already "stopped", a stop request by its owner or by an administrator, whose
  write of the record succeeds, returns the success response; afterwards the record is
  stored with status "stopped" and the stop timestamp of this request. Nothing is assumed
  about the orchestration service or the load balancer: whatever their calls do (also when
  they raise, or cannot be issued), the response is the same.
\<close>

theorem stop_model_idempotent:
  assumes "lookup_instance w ''instance_id'' instance_id = Inr (Some inst)"
    and "map_of inst ''status'' = Some (PStr ''stopped'')"
    and "map_of inst ''user_id'' = Some owner"
    and "owner = py_of_str_opt (user_id user) \<or> ''Administrators'' \<in> set (groups user)"
    and "environ_get w ''INSTANCES_TABLE_NAME'' = Some instances_table"
    and "ddb_fault w UpdateItem instances_table = None"
  shows "\<exists>w' inst'.
           stop_model instance_id user w =
             (\<lparr>statusCode = 200, headers = response_headers,
               body = Some (PDict [(''instance_id'', PStr instance_id),
                                   (''status'', PStr ''stopped'')])\<rparr>, w') \<and>
           lookup_instance w' ''instance_id'' instance_id = Inr (Some inst') \<and>
           map_of inst' ''status'' = Some (PStr ''stopped'') \<and>
           map_of inst' ''stopped_at'' = Some (PStr (now_iso w)) \<and>
           map_of inst' ''user_id'' = Some owner"
proof -
  have "\<not> access_denied owner user"
    using assms(4) by (auto simp add: access_denied_def py_eq_str_def)
  from stop_model_try_success [OF assms(1) assms(3) this assms(5) assms(6)]
  show ?thesis
    by (auto simp add: stop_model_def)
qed

text \<open>
  The witness stops the stopped instance of the example twice, in a world where scaling the
  service down raises: both requests return 200, and the record is stored as stopped.
\<close>

theorem stop_model_idempotent_witness:
  "lookup_instance (example_world ''dev'' 1 1) ''instance_id'' ''22222222-bbbb'' =
     Inr (Some example_stopped_instance) \<and>
   map_of example_stopped_instance ''status'' = Some (PStr ''stopped'') \<and>
   map_of example_stopped_instance ''user_id'' = Some (PStr ''alice'') \<and>
   environ_get (example_world ''dev'' 1 1) ''INSTANCES_TABLE_NAME'' = Some ''dev-instances'' \<and>
   ddb_fault (example_world ''dev'' 1 1) UpdateItem ''dev-instances'' = None \<and>
   (\<exists>w'. stop_model ''22222222-bbbb'' (example_user ''alice'' []) (example_world ''dev'' 1 1) =
            (\<lparr>statusCode = 200, headers = response_headers,
              body = Some (PDict [(''instance_id'', PStr ''22222222-bbbb''),
                                  (''status'', PStr ''stopped'')])\<rparr>, w')) \<and>
   statusCode (fst (stop_model ''22222222-bbbb'' (example_user ''alice'' [])
     (snd (stop_model ''22222222-bbbb'' (example_user ''alice'' []) (example_world ''dev'' 1 1))))) = 200"
proof -
  let ?w = "example_world ''dev'' 1 1"
  have h1: "lookup_instance ?w ''instance_id'' ''22222222-bbbb'' = Inr (Some example_stopped_instance)"
    by code_simp
  have h2: "map_of example_stopped_instance ''status'' = Some (PStr ''stopped'')"
    by (simp add: example_stopped_instance_def)
  have h3: "map_of example_stopped_instance ''user_id'' = Some (PStr ''alice'')"
    by (simp add: example_stopped_instance_def)
  have h4: "PStr ''alice'' = py_of_str_opt (user_id (example_user ''alice'' [])) \<or>
            ''Administrators'' \<in> set (groups (example_user ''alice'' []))"
    by (simp add: example_user_def py_of_str_opt_def)
  have h5: "environ_get ?w ''INSTANCES_TABLE_NAME'' = Some ''dev-instances''"
    by (simp add: environ_get_def example_world_def example_environ_def)
  have h6: "ddb_fault ?w UpdateItem ''dev-instances'' = None"
    by (simp add: example_world_def)
  have twice: "statusCode (fst (stop_model ''22222222-bbbb'' (example_user ''alice'' [])
     (snd (stop_model ''22222222-bbbb'' (example_user ''alice'' []) ?w)))) = 200"
    by code_simp
  from stop_model_idempotent [OF h1 h2 h3 h4 h5 h6]
  have "\<exists>w'. stop_model ''22222222-bbbb'' (example_user ''alice'' []) ?w =
            (\<lparr>statusCode = 200, headers = response_headers,
              body = Some (PDict [(''instance_id'', PStr ''22222222-bbbb''),
                                  (''status'', PStr ''stopped'')])\<rparr>, w')"
    by blast
  with h1 h2 h3 h5 h6 twice show ?thesis by blast
qed

subsection \<open>Log retrieval\<close>

text \<open>
  The listing of the streams as \<^verbatim>\<open>get_instance_logs\<close> requests it, by prefix and ordered
  by the time of the last event, never returns streams: it is refused, unless the log group
  is missing and the store reports that first.
\<close>

lemma describe_log_streams_last_event_time:
  "describe_log_streams w g p ''LastEventTime'' =
     (case logs_describe_log_streams w g p of
        Inl (ResourceNotFoundException m) \<Rightarrow>
          if logs_missing_group_first w then Inl (ResourceNotFoundException m)
          else Inl (ClientError ''InvalidParameterException'')
      | other \<Rightarrow> Inl (ClientError ''InvalidParameterException''))"
  by (simp add: describe_log_streams_def)

text \<open>
  So an authorized request (the instance exists, the caller is its owner or an
  administrator, \<^verbatim>\<open>ENVIRONMENT\<close> is configured) made when the log group exists is answered
  500 "Failed to retrieve logs", whether the group holds streams of the instance or not:
  the exception of the refused listing is not the one the inner handler catches.
\<close>

lemma get_instance_logs_listing_refused:
  assumes look: "lookup_instance w ''instance_id'' instance_id = Inr (Some inst)"
    and owner: "map_of inst ''user_id'' = Some owner"
    and allowed: "owner = py_of_str_opt (user_id user) \<or> ''Administrators'' \<in> set (groups user)"
    and env: "environ_get w ''ENVIRONMENT'' = Some stage"
    and exists: "logs_describe_log_streams w (''/ecs/'' @ stage @ ''-ollama'')
                   (''ollama-'' @ take 8 instance_id) = Inr streams"
  shows "get_instance_logs instance_id user w =
           \<lparr>statusCode = 500, headers = response_headers,
            body = Some (PDict [(''error'', PStr ''Failed to retrieve logs'')])\<rparr>"
proof -
  from look obtain t where "environ_item w ''INSTANCES_TABLE_NAME'' = Inr t"
    and "get_item w t ''instance_id'' instance_id = Inr (Some inst)"
    using lookup_instance_env by blast
  moreover have "\<not> access_denied owner user"
    using allowed by (auto simp add: access_denied_def py_eq_str_def)
  ultimately show ?thesis
    using owner env exists
    by (simp add: get_instance_logs_def get_instance_logs_try_def dict_item_def environ_item_get
        describe_log_streams_last_event_time create_error_response_def)
qed

text \<open>
  Claim C8. The claim fails on the code for an authorized request made when the log group
  exists. \<^verbatim>\<open>get_instance_logs\<close> lists the streams with \<^verbatim>\<open>logStreamNamePrefix\<close> and
  \<^verbatim>\<open>orderBy='LastEventTime'\<close> together, which the log store refuses with
  \<^verbatim>\<open>InvalidParameterException\<close>; only \<^verbatim>\<open>ResourceNotFoundException\<close> is caught next to
  the call, so the request is answered 500 "Failed to retrieve logs". This is so when the
  group holds a stream of the instance with events (the claim says: at most 100 entries,
  newest first) and when it holds no stream of the instance (the claim says: a success
  response with an empty log list and a note).
\<close>

theorem get_instance_logs_existing_group_evaluation:
  "lookup_instance (example_world ''dev'' 1 1) ''instance_id'' ''11111111-aaaa'' =
     Inr (Some example_running_instance) \<and>
   map_of example_running_instance ''user_id'' = Some (PStr ''alice'') \<and>
   logs_describe_log_streams (example_world ''dev'' 1 1) ''/ecs/dev-ollama'' ''ollama-11111111'' =
     Inr [''ollama-11111111/ollama/1''] \<and>
   get_instance_logs ''11111111-aaaa'' (example_user ''alice'' []) (example_world ''dev'' 1 1) =
     \<lparr>statusCode = 500, headers = response_headers,
      body = Some (PDict [(''error'', PStr ''Failed to retrieve logs'')])\<rparr> \<and>
   get_instance_logs ''11111111-aaaa'' (example_user ''alice'' [])
     ((example_world ''dev'' 1 1)\<lparr>logs_describe_log_streams := (\<lambda>g p. Inr [])\<rparr>) =
     \<lparr>statusCode = 500, headers = response_headers,
      body = Some (PDict [(''error'', PStr ''Failed to retrieve logs'')])\<rparr>"
  by (simp add: get_instance_logs_def get_instance_logs_try_def lookup_instance_def
      environ_item_def dict_item_def get_item_def ddb_table_def example_world_def
      example_environ_def example_tables_def has_key_def example_running_instance_def
      example_stopped_instance_def example_user_def access_denied_def py_eq_str_def
      py_of_str_opt_def describe_log_streams_def create_error_response_def)

subsection \<open>Every handler returns a structured response\<close>

lemma json_response_error_lf [simp]:
  "c \<in> {400, 403, 404, 429, 500} \<Longrightarrow> json_response cors_headers (error_lf c m)"
  by (auto simp add: json_response_def error_lf_def response_lf_def)

lemma json_response_failure_lf [simp]: "json_response cors_headers (failure_lf m e)"
  by (simp add: json_response_def failure_lf_def response_lf_def)

lemma json_response_response_lf [simp]:
  "c \<in> {200, 201} \<Longrightarrow> json_response cors_headers (response_lf c d)"
  by (auto simp add: json_response_def response_lf_def)

lemma json_response_error [simp]:
  "c \<in> {400, 403, 404, 429, 500} \<Longrightarrow> json_response response_headers (create_error_response c m)"
  by (auto simp add: json_response_def create_error_response_def)

lemma json_response_success:
  "create_success_response d c = Inr r \<Longrightarrow> c \<in> {200, 201} \<Longrightarrow> json_response response_headers r"
  by (auto simp add: json_response_def create_success_response_def split: sum.splits)

lemma json_response_success_or [simp]:
  "c \<in> {200, 201} \<Longrightarrow>
   json_response response_headers
     (case create_success_response d c of Inl e \<Rightarrow> create_error_response 500 m | Inr r \<Rightarrow> r)"
  by (auto simp add: json_response_success split: sum.split)

lemma case_map_prod_Inr [simp]:
  "(case map_prod Inr id p of (Inl e, w') \<Rightarrow> f e w' | (Inr r, w') \<Rightarrow> g r w') = g (fst p) (snd p)"
  by (cases p) simp

text \<open>The operations of \<^verbatim>\<open>lambda_function.py\<close>.\<close>

lemma create_instance_response: "json_response cors_headers (fst (create_instance ev user w))"
  unfolding create_instance_def create_instance_try_def
  by (simp add: Let_def split: sum.split option.split prod.split)

lemma delete_instance_response:
  "json_response cors_headers (fst (delete_instance i user w)) \<or>
   no_content cors_headers (fst (delete_instance i user w))"
  unfolding delete_instance_def delete_instance_try_def
  by (simp add: Let_def no_content_def split: sum.split option.split prod.split)

lemma list_instances_lf_response: "json_response cors_headers (list_instances_lf user w)"
  unfolding list_instances_lf_def list_instances_lf_try_def
  by (simp split: sum.split option.split)

lemma get_instance_lf_response: "json_response cors_headers (fst (get_instance_lf i user w))"
  unfolding get_instance_lf_def get_instance_lf_try_def
  by (simp add: Let_def split: sum.split option.split prod.split)

lemma lambda_handler_lf_response:
  "json_response cors_headers (fst (lambda_handler_lf ev w)) \<or>
   no_content cors_headers (fst (lambda_handler_lf ev w))"
  unfolding lambda_handler_lf_def lambda_handler_lf_try_def
  by (simp add: Let_def create_instance_response delete_instance_response
      list_instances_lf_response get_instance_lf_response split: option.split)

text \<open>The operations of \<^verbatim>\<open>instances.py\<close>.\<close>

lemma list_instances_inst_response: "json_response response_headers (list_instances_inst user w)"
  unfolding list_instances_inst_def list_instances_inst_try_def
  by (simp add: Let_def json_response_success split: sum.split option.split)

lemma get_instance_inst_response: "json_response response_headers (get_instance_inst i user w)"
  unfolding get_instance_inst_def get_instance_inst_try_def
  by (simp add: Let_def json_response_success split: sum.split option.split)

lemma get_instance_logs_response: "json_response response_headers (get_instance_logs i user w)"
  unfolding get_instance_logs_def get_instance_logs_try_def
  by (simp add: Let_def json_response_success split: sum.split option.split exn.split)

lemma get_instance_status_response:
  "json_response response_headers (fst (get_instance_status i user w))"
  unfolding get_instance_status_def get_instance_status_try_def
  by (simp add: Let_def json_response_success split: sum.split option.split prod.split)

lemma lambda_handler_inst_response:
  "json_response response_headers (fst (lambda_handler_inst ev w))"
  unfolding lambda_handler_inst_def lambda_handler_inst_try_def
  by (simp add: Let_def list_instances_inst_response get_instance_inst_response
      get_instance_logs_response get_instance_status_response split: option.split sum.split)

text \<open>The operations of \<^verbatim>\<open>models.py\<close>.\<close>

lemma list_models_response: "json_response response_headers (list_models w)"
  unfolding list_models_def list_models_try_def
  by (simp add: json_response_success split: sum.split option.split)

lemma start_model_response: "json_response response_headers (fst (start_model ev user w))"
  unfolding start_model_def start_model_try_def
  by (simp add: Let_def json_response_success split: sum.split option.split prod.split)

lemma stop_model_response: "json_response response_headers (fst (stop_model i user w))"
  unfolding stop_model_def stop_model_try_def
  by (simp add: Let_def json_response_success split: sum.split option.split prod.split)

lemma lambda_handler_mod_response:
  "json_response response_headers (fst (lambda_handler_mod ev w))"
  unfolding lambda_handler_mod_def lambda_handler_mod_try_def
  by (simp add: Let_def list_models_response start_model_response stop_model_response
      split: option.split sum.split)


lemma json_response_not_no_content: "json_response hs r \<Longrightarrow> \<not> no_content hs' r"
  by (auto simp add: json_response_def no_content_def split: if_splits)

lemma lambda_handler_lf_no_content:
  assumes "no_content cors_headers (fst (lambda_handler_lf ev w))"
  shows "httpMethod ev = Some ''DELETE''"
proof (rule ccontr)
  assume other: "httpMethod ev \<noteq> Some ''DELETE''"
  have "json_response cors_headers (fst (lambda_handler_lf ev w))"
    using other
    unfolding lambda_handler_lf_def lambda_handler_lf_try_def
    by (simp add: Let_def create_instance_response list_instances_lf_response
        get_instance_lf_response split: option.split)
  with assms show False
    using json_response_not_no_content by blast
qed

text \<open>
  Claim C7, as amended. For every request event and every world, each of the three handlers
  returns a response: the model of a handler is a total function into responses, in which
  every \<^verbatim>\<open>raise\<close> of the source is a branch that its \<^verbatim>\<open>try/except\<close> blocks turn into a
  response. Each response has a status code and the fixed header set; it has a JSON body,
  a success body with code 200 or 201 or the error envelope with an error code, except for
  the 204 of a successful \<^verbatim>\<open>DELETE /instances/{id}\<close>, which has no body. An exception that
  reaches the outermost layer, as the one raised for an event without method or path, yields
  the 500 response with the error envelope.
\<close>

theorem handlers_return_structured_response:
  "(json_response cors_headers (fst (lambda_handler_lf ev w)) \<or>
    no_content cors_headers (fst (lambda_handler_lf ev w))) \<and>
   (no_content cors_headers (fst (lambda_handler_lf ev w)) \<longrightarrow> httpMethod ev = Some ''DELETE'') \<and>
   json_response response_headers (fst (lambda_handler_inst ev w)) \<and>
   json_response response_headers (fst (lambda_handler_mod ev w)) \<and>
   (lambda_handler_lf_try ev w = (Inl e, w') \<longrightarrow>
      lambda_handler_lf ev w =
        (\<lparr>statusCode = 500, headers = cors_headers,
          body = Some (PDict [(''error'', PStr ''Internal server error''),
                              (''message'', PStr (str_exn e))])\<rparr>, w')) \<and>
   (lambda_handler_inst_try ev w = (Inl e, w') \<longrightarrow>
      lambda_handler_inst ev w =
        (\<lparr>statusCode = 500, headers = response_headers,
          body = Some (PDict [(''error'', PStr ''Internal server error'')])\<rparr>, w')) \<and>
   (lambda_handler_mod_try ev w = (Inl e, w') \<longrightarrow>
      lambda_handler_mod ev w =
        (\<lparr>statusCode = 500, headers = response_headers,
          body = Some (PDict [(''error'', PStr ''Internal server error'')])\<rparr>, w')) \<and>
   (httpMethod ev = None \<or> path ev = None \<longrightarrow>
      statusCode (fst (lambda_handler_lf ev w)) = 500 \<and>
      error_envelope (body (fst (lambda_handler_lf ev w))) \<and>
      lambda_handler_inst ev w =
        (\<lparr>statusCode = 500, headers = response_headers,
          body = Some (PDict [(''error'', PStr ''Internal server error'')])\<rparr>, w) \<and>
      lambda_handler_mod ev w =
        (\<lparr>statusCode = 500, headers = response_headers,
          body = Some (PDict [(''error'', PStr ''Internal server error'')])\<rparr>, w))"
proof (intro conjI impI)
  show "json_response cors_headers (fst (lambda_handler_lf ev w)) \<or>
        no_content cors_headers (fst (lambda_handler_lf ev w))"
    by (rule lambda_handler_lf_response)
  show "httpMethod ev = Some ''DELETE''" if "no_content cors_headers (fst (lambda_handler_lf ev w))"
    using that by (rule lambda_handler_lf_no_content)
  show "json_response response_headers (fst (lambda_handler_inst ev w))"
    by (rule lambda_handler_inst_response)
  show "json_response response_headers (fst (lambda_handler_mod ev w))"
    by (rule lambda_handler_mod_response)
  show "lambda_handler_lf ev w =
        (\<lparr>statusCode = 500, headers = cors_headers,
          body = Some (PDict [(''error'', PStr ''Internal server error''),
                              (''message'', PStr (str_exn e))])\<rparr>, w')"
    if "lambda_handler_lf_try ev w = (Inl e, w')"
    using that by (simp add: lambda_handler_lf_def failure_lf_def response_lf_def)
  show "lambda_handler_inst ev w =
        (\<lparr>statusCode = 500, headers = response_headers,
          body = Some (PDict [(''error'', PStr ''Internal server error'')])\<rparr>, w')"
    if "lambda_handler_inst_try ev w = (Inl e, w')"
    using that by (simp add: lambda_handler_inst_def create_error_response_def)
  show "lambda_handler_mod ev w =
        (\<lparr>statusCode = 500, headers = response_headers,
          body = Some (PDict [(''error'', PStr ''Internal server error'')])\<rparr>, w')"
    if "lambda_handler_mod_try ev w = (Inl e, w')"
    using that by (simp add: lambda_handler_mod_def create_error_response_def)
next
  assume bad: "httpMethod ev = None \<or> path ev = None"
  then have "\<exists>x. lambda_handler_lf_try ev w = (Inl x, w)"
    by (auto simp add: lambda_handler_lf_try_def split: option.splits)
  then show "statusCode (fst (lambda_handler_lf ev w)) = 500"
    and "error_envelope (body (fst (lambda_handler_lf ev w)))"
    by (auto simp add: lambda_handler_lf_def failure_lf_def response_lf_def)
  from bad have "\<exists>x. lambda_handler_inst_try ev w = (Inl x, w)"
    by (auto simp add: lambda_handler_inst_try_def split: option.splits)
  then show "lambda_handler_inst ev w =
        (\<lparr>statusCode = 500, headers = response_headers,
          body = Some (PDict [(''error'', PStr ''Internal server error'')])\<rparr>, w)"
    by (auto simp add: lambda_handler_inst_def create_error_response_def)
  from bad have "\<exists>x. lambda_handler_mod_try ev w = (Inl x, w)"
    by (auto simp add: lambda_handler_mod_try_def split: option.splits)
  then show "lambda_handler_mod ev w =
        (\<lparr>statusCode = 500, headers = response_headers,
          body = Some (PDict [(''error'', PStr ''Internal server error'')])\<rparr>, w)"
    by (auto simp add: lambda_handler_mod_def create_error_response_def)
qed

text \<open>The witness: an event without a method, and the request of a user for the list of instances.\<close>

theorem handlers_return_structured_response_witness:
  "httpMethod \<lparr>httpMethod = None, path = Some ''/instances'', claims = [], json_body = Inr []\<rparr> = None \<and>
   statusCode (fst (lambda_handler_lf
     \<lparr>httpMethod = None, path = Some ''/instances'', claims = [], json_body = Inr []\<rparr>
     (example_world ''prod'' 1 1))) = 500 \<and>
   lambda_handler_inst
     \<lparr>httpMethod = None, path = Some ''/instances'', claims = [], json_body = Inr []\<rparr>
     (example_world ''dev'' 1 1) =
     (\<lparr>statusCode = 500, headers = response_headers,
       body = Some (PDict [(''error'', PStr ''Internal server error'')])\<rparr>, example_world ''dev'' 1 1) \<and>
   lambda_handler_lf_try
     \<lparr>httpMethod = None, path = Some ''/instances'', claims = [], json_body = Inr []\<rparr>
     (example_world ''prod'' 1 1) = (Inl (KeyError ''httpMethod''), example_world ''prod'' 1 1) \<and>
   lambda_handler_lf
     \<lparr>httpMethod = None, path = Some ''/instances'', claims = [], json_body = Inr []\<rparr>
     (example_world ''prod'' 1 1) =
     (\<lparr>statusCode = 500, headers = cors_headers,
       body = Some (PDict [(''error'', PStr ''Internal server error''),
                           (''message'', PStr (str_exn (KeyError ''httpMethod'')))])\<rparr>,
      example_world ''prod'' 1 1) \<and>
   json_response response_headers
     (fst (lambda_handler_inst (example_event ''GET'' ''/instances'' ''alice'' []) (example_world ''dev'' 1 1)))"
proof -
  let ?ev = "\<lparr>httpMethod = None, path = Some ''/instances'', claims = [], json_body = Inr []\<rparr>"
  have h1: "httpMethod ?ev = None" by simp
  have h2: "lambda_handler_lf_try ?ev (example_world ''prod'' 1 1) =
              (Inl (KeyError ''httpMethod''), example_world ''prod'' 1 1)"
    by (simp add: lambda_handler_lf_try_def)
  from handlers_return_structured_response
         [of ?ev "example_world ''prod'' 1 1" "KeyError ''httpMethod''" "example_world ''prod'' 1 1"]
       h1 h2
  have a: "statusCode (fst (lambda_handler_lf ?ev (example_world ''prod'' 1 1))) = 500"
    and b: "lambda_handler_lf ?ev (example_world ''prod'' 1 1) =
     (\<lparr>statusCode = 500, headers = cors_headers,
       body = Some (PDict [(''error'', PStr ''Internal server error''),
                           (''message'', PStr (str_exn (KeyError ''httpMethod'')))])\<rparr>,
      example_world ''prod'' 1 1)"
    by simp_all
  from handlers_return_structured_response
         [of ?ev "example_world ''dev'' 1 1" "KeyError ''httpMethod''" "example_world ''dev'' 1 1"] h1
  have c: "lambda_handler_inst ?ev (example_world ''dev'' 1 1) =
     (\<lparr>statusCode = 500, headers = response_headers,
       body = Some (PDict [(''error'', PStr ''Internal server error'')])\<rparr>, example_world ''dev'' 1 1)"
    by simp
  from handlers_return_structured_response
         [of "example_event ''GET'' ''/instances'' ''alice'' []" "example_world ''dev'' 1 1"]
  have d: "json_response response_headers
     (fst (lambda_handler_inst (example_event ''GET'' ''/instances'' ''alice'' []) (example_world ''dev'' 1 1)))"
    by simp
  from h1 h2 a b c d show ?thesis by simp
qed

text \<open>
  The claim as stated fails for a successful delete: the response of
  \<^verbatim>\<open>DELETE /instances/{id}\<close> is the status code 204 with the headers and no body.
\<close>

theorem delete_response_without_body_counterexample:
  "statusCode (fst (lambda_handler_lf
      (example_event ''DELETE'' ''/instances/33333333-cccc'' ''alice'' [])
      (example_world ''prod'' 1 1))) = 204 \<and>
   body (fst (lambda_handler_lf
      (example_event ''DELETE'' ''/instances/33333333-cccc'' ''alice'' [])
      (example_world ''prod'' 1 1))) = None"
  by code_simp

subsection \<open>Access control\<close>

lemma denied_iff:
  "access_denied (PStr a) user = (user_id user \<noteq> Some a \<and> ''Administrators'' \<notin> set (groups user))"
  by (auto simp add: access_denied_def py_eq_str_def py_of_str_opt_def split: option.splits)

text \<open>A caller who is refused: every operation on the instance answers 403 and changes nothing.\<close>

lemma get_instance_inst_denied:
  assumes "lookup_instance w ''instance_id'' i = Inr (Some inst)"
    and "map_of inst ''user_id'' = Some owner" and "access_denied owner user"
  shows "get_instance_inst i user w = create_error_response 403 ''Access denied''"
proof -
  from assms(1) obtain t where "environ_item w ''INSTANCES_TABLE_NAME'' = Inr t"
    and "get_item w t ''instance_id'' i = Inr (Some inst)"
    using lookup_instance_env by blast
  with assms(2,3) show ?thesis
    by (simp add: get_instance_inst_def get_instance_inst_try_def dict_item_def)
qed

lemma get_instance_logs_denied:
  assumes "lookup_instance w ''instance_id'' i = Inr (Some inst)"
    and "map_of inst ''user_id'' = Some owner" and "access_denied owner user"
  shows "get_instance_logs i user w = create_error_response 403 ''Access denied''"
proof -
  from assms(1) obtain t where "environ_item w ''INSTANCES_TABLE_NAME'' = Inr t"
    and "get_item w t ''instance_id'' i = Inr (Some inst)"
    using lookup_instance_env by blast
  with assms(2,3) show ?thesis
    by (simp add: get_instance_logs_def get_instance_logs_try_def dict_item_def)
qed

lemma get_instance_status_denied:
  assumes "lookup_instance w ''instance_id'' i = Inr (Some inst)"
    and "map_of inst ''user_id'' = Some owner" and "access_denied owner user"
  shows "get_instance_status i user w = (create_error_response 403 ''Access denied'', w)"
proof -
  from assms(1) obtain t where "environ_item w ''INSTANCES_TABLE_NAME'' = Inr t"
    and "get_item w t ''instance_id'' i = Inr (Some inst)"
    using lookup_instance_env by blast
  with assms(2,3) show ?thesis
    by (simp add: get_instance_status_def get_instance_status_try_def dict_item_def)
qed

lemma stop_model_denied:
  assumes "lookup_instance w ''instance_id'' i = Inr (Some inst)"
    and "map_of inst ''user_id'' = Some owner" and "access_denied owner user"
  shows "stop_model i user w = (create_error_response 403 ''Access denied'', w)"
proof -
  from assms(1) obtain t where "environ_item w ''INSTANCES_TABLE_NAME'' = Inr t"
    and "get_item w t ''instance_id'' i = Inr (Some inst)"
    using lookup_instance_env by blast
  with assms(2,3) show ?thesis
    by (simp add: stop_model_def stop_model_try_def dict_item_def)
qed

lemma get_instance_lf_denied:
  assumes "lookup_instance w ''id'' i = Inr (Some inst)"
    and "map_of inst ''user_id'' = Some owner" and "access_denied owner user"
  shows "get_instance_lf i user w = (error_lf 403 ''Access denied'', w)"
proof -
  from assms(1) obtain t where "environ_item w ''INSTANCES_TABLE_NAME'' = Inr t"
    and "get_item w t ''id'' i = Inr (Some inst)"
    using lookup_instance_env by blast
  with assms(2,3) show ?thesis
    by (simp add: get_instance_lf_def get_instance_lf_try_def dict_item_def)
qed

lemma delete_instance_denied:
  assumes "lookup_instance w ''id'' i = Inr (Some inst)"
    and "map_of inst ''user_id'' = Some owner" and "access_denied owner user"
  shows "delete_instance i user w = (error_lf 403 ''Access denied'', w)"
proof -
  from assms(1) obtain t where "environ_item w ''INSTANCES_TABLE_NAME'' = Inr t"
    and "get_item w t ''id'' i = Inr (Some inst)"
    using lookup_instance_env by blast
  with assms(2,3) show ?thesis
    by (simp add: delete_instance_def delete_instance_try_def dict_item_def)
qed

text \<open>The status code of each kind of response.\<close>

lemma status_error_500 [simp]: "statusCode (create_error_response c m) = c"
  by (simp add: create_error_response_def)

lemma status_failure_lf [simp]: "statusCode (failure_lf m e) = 500"
  by (simp add: failure_lf_def response_lf_def)

lemma status_response_lf [simp]: "statusCode (response_lf c d) = c"
  by (simp add: response_lf_def)


text \<open>Listing: what a list response carries comes from the rows the store returned.\<close>

lemma those_length: "those xs = Some ys \<Longrightarrow> length ys = length xs"
  by (induction xs arbitrary: ys) (auto split: option.splits)

lemma set_sort_by [simp]: "set (sort_by f r xs) = set xs"
  by (simp add: sort_by_def sort_reverse_def)

lemma set_sorted_zip:
  "length ks = length items \<Longrightarrow> set (map snd (sort_by fst r (zip ks items))) = set items"
proof -
  assume "length ks = length items"
  then have "map snd (zip ks items) = items" by simp
  then have "snd ` set (zip ks items) = set items"
    by (metis set_map)
  then show ?thesis by simp
qed

lemma sort_items_set:
  assumes "sort_items k r items = Inr xs"
  shows "set xs = set items"
proof -
  define keys where "keys = map (\<lambda>x. dict_get_default x k (PStr [])) items"
  have len: "length ks = length items" if "those (map f keys) = Some ks" for f :: "py \<Rightarrow> 'k option" and ks
    using those_length [OF that] by (simp add: keys_def)
  from assms consider "xs = items"
    | ks where "those (map str_key keys) = Some ks" "xs = map snd (sort_by fst r (zip ks items))"
    | ns where "those (map num_key keys) = Some ns" "xs = map snd (sort_by fst r (zip ns items))"
    unfolding sort_items_def keys_def [symmetric] Let_def
    by (auto split: if_splits option.splits)
  then show ?thesis
  proof cases
    case 1
    then show ?thesis by simp
  next
    case 2
    then show ?thesis using set_sorted_zip [OF len [OF 2(1)]] by simp
  next
    case 3
    then show ?thesis using set_sorted_zip [OF len [OF 3(1)]] by simp
  qed
qed

lemma map_exn_set:
  "map_exn f xs = Inr ys \<Longrightarrow> set ys = {y. \<exists>x \<in> set xs. f x = Inr y}"
proof (induction xs arbitrary: ys)
  case Nil
  then show ?case by simp
next
  case (Cons x xs)
  then show ?case
    by (auto split: sum.splits)
qed

lemma map_exn_total:
  "map_exn f xs = Inr ys \<Longrightarrow> x \<in> set xs \<Longrightarrow> \<exists>y. f x = Inr y"
  by (induction xs arbitrary: ys) (auto split: sum.splits)

lemma scan_rows:
  "environ_get w ''INSTANCES_TABLE_NAME'' = Some t \<Longrightarrow> scan w t = Inr items \<Longrightarrow>
   items = instance_rows w"
  by (auto simp add: scan_def ddb_table_def instance_rows_def split: sum.splits option.splits)

lemma scan_attr_eq_rows:
  "environ_get w ''INSTANCES_TABLE_NAME'' = Some t \<Longrightarrow> scan_attr_eq w t a v = Inr items \<Longrightarrow>
   items = filter (\<lambda>it. map_of it a = Some v) (instance_rows w)"
  by (auto simp add: scan_attr_eq_def ddb_table_def instance_rows_def split: sum.splits option.splits)

lemma query_user_own_rows:
  "environ_get w ''INSTANCES_TABLE_NAME'' = Some t \<Longrightarrow> query_user w t uid = Inr items \<Longrightarrow>
   items = filter (\<lambda>it. map_of it ''user_id'' = Some (py_of_str_opt uid)) (instance_rows w)"
  by (auto simp add: query_user_def ddb_table_def instance_rows_def py_of_str_opt_def
      split: sum.splits option.splits)

lemma lookup_instance_row:
  "lookup_instance w kattr i = Inr (Some inst) \<Longrightarrow> inst \<in> set (instance_rows w)"
  by (auto simp add: lookup_instance_def environ_item_get get_item_def ddb_table_def
      instance_rows_def find_Some_iff split: sum.splits option.splits if_splits)

text \<open>The rows of which the list of \<^verbatim>\<open>instances.py\<close> is made.\<close>

lemma list_instances_inst_listed:
  "\<exists>items.
     set items \<subseteq> set (instance_rows w) \<and>
     (''Administrators'' \<notin> set (groups user) \<longrightarrow>
        (\<forall>it \<in> set items. map_of it ''user_id'' = Some (py_of_str_opt (user_id user)))) \<and>
     (statusCode (list_instances_inst user w) = 200 \<longrightarrow>
        (\<forall>it \<in> set (instance_rows w).
           ''Administrators'' \<in> set (groups user) \<or>
           map_of it ''user_id'' = Some (py_of_str_opt (user_id user)) \<longrightarrow> it \<in> set items)) \<and>
     set (listed_instances (list_instances_inst user w)) =
       (\<lambda>it. PDict (AList.update ''real_time_status'' (get_ecs_service_status w it) it)) ` set items"
proof -
  let ?enrich = "\<lambda>it. PDict (AList.update ''real_time_status'' (get_ecs_service_status w it) it)"
  obtain outcome where outcome: "list_instances_inst_try user w = outcome" by simp
  then consider (fails) e where "list_instances_inst_try user w = Inl e"
    | (lists) r where "list_instances_inst_try user w = Inr r"
    by (cases outcome) auto
  then show ?thesis
  proof cases
    case fails
    then have "list_instances_inst user w = create_error_response 500 ''Failed to retrieve instances''"
      by (simp add: list_instances_inst_def)
    then have "listed_instances (list_instances_inst user w) = []"
      and "statusCode (list_instances_inst user w) \<noteq> 200"
      by (simp_all add: listed_instances_def create_error_response_def)
    then show ?thesis
      by (intro exI [of _ "[]"]) simp
  next
    case lists
    then obtain t items sorted_items where
      t: "environ_get w ''INSTANCES_TABLE_NAME'' = Some t"
      and q: "(if ''Administrators'' \<in> set (groups user) then scan w t
              else query_user w t (user_id user)) = Inr items"
      and s: "sort_items ''created_at'' True items = Inr sorted_items"
      and r: "create_success_response
                (PDict
                   [(''instances'', PList (map PDict (map (\<lambda>it.
                        AList.update ''real_time_status'' (get_ecs_service_status w it) it) sorted_items))),
                    (''count'', PInt (int (length (map (\<lambda>it.
                        AList.update ''real_time_status'' (get_ecs_service_status w it) it) sorted_items)))),
                    (''user_filter'',
                       PStr (if ''Administrators'' \<in> set (groups user) then ''all'' else ''own''))])
                200 = Inr r"
      by (auto simp add: list_instances_inst_try_def environ_item_get Let_def
          split: sum.splits option.splits)
    from lists have res: "list_instances_inst user w = r"
      by (simp add: list_instances_inst_def)
    from r have listed: "listed_instances r = map ?enrich sorted_items"
      by (auto simp add: create_success_response_def json_dumps_def listed_instances_def
          split: if_splits)
    from s have sets: "set sorted_items = set items" by (rule sort_items_set)
    have items: "items = (if ''Administrators'' \<in> set (groups user) then instance_rows w
            else filter (\<lambda>it. map_of it ''user_id'' = Some (py_of_str_opt (user_id user)))
                   (instance_rows w))"
      using q scan_rows [OF t] query_user_own_rows [OF t]
      by (auto split: if_splits)
    show ?thesis
      using res listed sets items
      by (intro exI [of _ sorted_items]) auto
  qed
qed

text \<open>The rows of which the list of \<^verbatim>\<open>lambda_function.py\<close> is made.\<close>

lemma list_instances_lf_listed:
  "\<exists>items.
     set items \<subseteq> set (instance_rows w) \<and>
     (''Administrators'' \<notin> set (groups user) \<longrightarrow>
        (\<forall>it \<in> set items. map_of it ''user_id'' = Some (py_of_str_opt (user_id user)))) \<and>
     (statusCode (list_instances_lf user w) = 200 \<longrightarrow>
        (\<forall>it \<in> set (instance_rows w).
           ''Administrators'' \<in> set (groups user) \<or>
           map_of it ''user_id'' = Some (py_of_str_opt (user_id user)) \<longrightarrow> it \<in> set items)) \<and>
     (statusCode (list_instances_lf user w) = 200 \<longrightarrow>
        (\<forall>it \<in> set items. \<exists>view. project it instance_view = Inr view)) \<and>
     set (listed_instances (list_instances_lf user w)) =
       {x. \<exists>it \<in> set items. \<exists>view. project it instance_view = Inr view \<and> x = PDict view}"
proof -
  obtain outcome where outcome: "list_instances_lf_try user w = outcome" by simp
  then consider (fails) e where "list_instances_lf_try user w = Inl e"
    | (lists) r where "list_instances_lf_try user w = Inr r"
    by (cases outcome) auto
  then show ?thesis
  proof cases
    case fails
    then have "list_instances_lf user w = failure_lf ''Failed to list instances'' e"
      by (simp add: list_instances_lf_def)
    then have "listed_instances (list_instances_lf user w) = []"
      and "statusCode (list_instances_lf user w) \<noteq> 200"
      by (simp_all add: listed_instances_def failure_lf_def response_lf_def)
    then show ?thesis
      by (intro exI [of _ "[]"]) simp
  next
    case lists
    then obtain t items instances where
      t: "environ_get w ''INSTANCES_TABLE_NAME'' = Some t"
      and q: "(if ''Administrators'' \<in> set (groups user) then scan w t
              else scan_attr_eq w t ''user_id'' (py_of_str_opt (user_id user))) = Inr items"
      and m: "map_exn (\<lambda>it. map_sum id PDict (project it instance_view)) items = Inr instances"
      and r: "r = response_lf 200 (PList instances)"
      by (auto simp add: list_instances_lf_try_def environ_item_get json_dumps_def
          split: sum.splits option.splits if_splits)
    from lists have res: "list_instances_lf user w = r"
      by (simp add: list_instances_lf_def)
    from r have listed: "listed_instances r = instances"
      by (simp add: listed_instances_def response_lf_def)
    have "set instances = {y. \<exists>x \<in> set items. map_sum id PDict (project x instance_view) = Inr y}"
      using m by (rule map_exn_set)
    also have "\<dots> = {x. \<exists>it \<in> set items. \<exists>view. project it instance_view = Inr view \<and> x = PDict view}"
    proof -
      have eqv: "(map_sum id PDict p = Inr y) = (\<exists>view. p = Inr view \<and> y = PDict view)"
        for p :: "exn + item" and y
        by (cases p) auto
      show ?thesis by (simp add: eqv)
    qed
    finally have views: "set instances =
      {x. \<exists>it \<in> set items. \<exists>view. project it instance_view = Inr view \<and> x = PDict view}" .
    have items: "items = (if ''Administrators'' \<in> set (groups user) then instance_rows w
            else filter (\<lambda>it. map_of it ''user_id'' = Some (py_of_str_opt (user_id user)))
                   (instance_rows w))"
      using q scan_rows [OF t] scan_attr_eq_rows [OF t]
      by (auto split: if_splits)
    have total: "\<exists>view. project it instance_view = Inr view" if "it \<in> set items" for it
    proof -
      from map_exn_total [OF m that] obtain y where
        "map_sum id PDict (project it instance_view) = Inr y" by blast
      then show ?thesis by (auto simp add: map_sum_def split: sum.splits)
    qed
    show ?thesis
      using res listed views items total
      by (intro exI [of _ items]) auto
  qed
qed


text \<open>
  Let an instance be owned by the user \<open>a\<close>. A caller who is neither \<open>a\<close> nor a member
  of the group \<^verbatim>\<open>Administrators\<close> is refused: every operation addressed to the instance
  (get, logs, status and stop on the surface of \<^verbatim>\<open>src/lambda\<close>; get and delete on the
  surface of \<^verbatim>\<open>lambda_function.py\<close>) answers 403 "Access denied" and leaves the world as
  it was; and whatever a list answers to this caller is made of stored instances whose owner
  is the caller, so it does not contain the instance of \<open>a\<close>.
\<close>

lemma instance_access_denied_to_others:
  assumes "map_of inst ''user_id'' = Some (PStr a)"
    and other: "user_id user \<noteq> Some a \<and> ''Administrators'' \<notin> set (groups user)"
  shows
    "(lookup_instance w ''instance_id'' instance_id = Inr (Some inst) \<longrightarrow>
           get_instance_inst instance_id user w =
             \<lparr>statusCode = 403, headers = response_headers,
              body = Some (PDict [(''error'', PStr ''Access denied'')])\<rparr> \<and>
           get_instance_logs instance_id user w =
             \<lparr>statusCode = 403, headers = response_headers,
              body = Some (PDict [(''error'', PStr ''Access denied'')])\<rparr> \<and>
           get_instance_status instance_id user w =
             (\<lparr>statusCode = 403, headers = response_headers,
               body = Some (PDict [(''error'', PStr ''Access denied'')])\<rparr>, w) \<and>
           stop_model instance_id user w =
             (\<lparr>statusCode = 403, headers = response_headers,
               body = Some (PDict [(''error'', PStr ''Access denied'')])\<rparr>, w)) \<and>
     (lookup_instance w ''id'' instance_id = Inr (Some inst) \<longrightarrow>
           get_instance_lf instance_id user w =
             (\<lparr>statusCode = 403, headers = cors_headers,
               body = Some (PDict [(''error'', PStr ''Access denied'')])\<rparr>, w) \<and>
           delete_instance instance_id user w =
             (\<lparr>statusCode = 403, headers = cors_headers,
               body = Some (PDict [(''error'', PStr ''Access denied'')])\<rparr>, w)) \<and>
     (\<forall>x \<in> set (listed_instances (list_instances_inst user w)).
           \<exists>it \<in> set (instance_rows w).
             map_of it ''user_id'' = Some (py_of_str_opt (user_id user)) \<and> it \<noteq> inst \<and>
             x = PDict (AList.update ''real_time_status'' (get_ecs_service_status w it) it)) \<and>
     (\<forall>x \<in> set (listed_instances (list_instances_lf user w)).
           \<exists>it \<in> set (instance_rows w).
             map_of it ''user_id'' = Some (py_of_str_opt (user_id user)) \<and> it \<noteq> inst \<and>
             (\<exists>view. project it instance_view = Inr view \<and> x = PDict view))"
proof (intro conjI impI)
  from other have denied: "access_denied (PStr a) user"
    by (simp add: denied_iff)
  from other have not_own: "map_of inst ''user_id'' \<noteq> Some (py_of_str_opt (user_id user))"
    using assms(1) by (auto simp add: py_of_str_opt_def split: option.splits)
  {
    assume look: "lookup_instance w ''instance_id'' instance_id = Inr (Some inst)"
    show "get_instance_inst instance_id user w =
             \<lparr>statusCode = 403, headers = response_headers,
              body = Some (PDict [(''error'', PStr ''Access denied'')])\<rparr>"
      using get_instance_inst_denied [OF look assms(1) denied]
      by (simp add: create_error_response_def)
    show "get_instance_logs instance_id user w =
             \<lparr>statusCode = 403, headers = response_headers,
              body = Some (PDict [(''error'', PStr ''Access denied'')])\<rparr>"
      using get_instance_logs_denied [OF look assms(1) denied]
      by (simp add: create_error_response_def)
    show "get_instance_status instance_id user w =
             (\<lparr>statusCode = 403, headers = response_headers,
               body = Some (PDict [(''error'', PStr ''Access denied'')])\<rparr>, w)"
      using get_instance_status_denied [OF look assms(1) denied]
      by (simp add: create_error_response_def)
    show "stop_model instance_id user w =
             (\<lparr>statusCode = 403, headers = response_headers,
               body = Some (PDict [(''error'', PStr ''Access denied'')])\<rparr>, w)"
      using stop_model_denied [OF look assms(1) denied]
      by (simp add: create_error_response_def)
  }
  {
    assume look: "lookup_instance w ''id'' instance_id = Inr (Some inst)"
    show "get_instance_lf instance_id user w =
             (\<lparr>statusCode = 403, headers = cors_headers,
               body = Some (PDict [(''error'', PStr ''Access denied'')])\<rparr>, w)"
      using get_instance_lf_denied [OF look assms(1) denied]
      by (simp add: error_lf_def response_lf_def)
    show "delete_instance instance_id user w =
             (\<lparr>statusCode = 403, headers = cors_headers,
               body = Some (PDict [(''error'', PStr ''Access denied'')])\<rparr>, w)"
      using delete_instance_denied [OF look assms(1) denied]
      by (simp add: error_lf_def response_lf_def)
  }
  show "\<forall>x \<in> set (listed_instances (list_instances_inst user w)).
           \<exists>it \<in> set (instance_rows w).
             map_of it ''user_id'' = Some (py_of_str_opt (user_id user)) \<and> it \<noteq> inst \<and>
             x = PDict (AList.update ''real_time_status'' (get_ecs_service_status w it) it)"
  proof
    fix x
    assume x: "x \<in> set (listed_instances (list_instances_inst user w))"
    from list_instances_inst_listed [of w user] other obtain items where
      i1: "set items \<subseteq> set (instance_rows w)"
      and i2: "\<forall>it \<in> set items. map_of it ''user_id'' = Some (py_of_str_opt (user_id user))"
      and i3: "set (listed_instances (list_instances_inst user w)) =
        (\<lambda>it. PDict (AList.update ''real_time_status'' (get_ecs_service_status w it) it)) ` set items"
      by blast
    from x i3 obtain it where it: "it \<in> set items"
      and xit: "x = PDict (AList.update ''real_time_status'' (get_ecs_service_status w it) it)"
      by blast
    from it i2 not_own have "it \<noteq> inst" by blast
    with it i1 i2 xit
    show "\<exists>it \<in> set (instance_rows w).
             map_of it ''user_id'' = Some (py_of_str_opt (user_id user)) \<and> it \<noteq> inst \<and>
             x = PDict (AList.update ''real_time_status'' (get_ecs_service_status w it) it)"
      by blast
  qed
  show "\<forall>x \<in> set (listed_instances (list_instances_lf user w)).
           \<exists>it \<in> set (instance_rows w).
             map_of it ''user_id'' = Some (py_of_str_opt (user_id user)) \<and> it \<noteq> inst \<and>
             (\<exists>view. project it instance_view = Inr view \<and> x = PDict view)"
  proof
    fix x
    assume x: "x \<in> set (listed_instances (list_instances_lf user w))"
    from list_instances_lf_listed [of w user] other obtain items where
      i1: "set items \<subseteq> set (instance_rows w)"
      and i2: "\<forall>it \<in> set items. map_of it ''user_id'' = Some (py_of_str_opt (user_id user))"
      and i3: "set (listed_instances (list_instances_lf user w)) =
        {x. \<exists>it \<in> set items. \<exists>view. project it instance_view = Inr view \<and> x = PDict view}"
      by blast
    from x i3 obtain it view where it: "it \<in> set items"
      and xit: "project it instance_view = Inr view" "x = PDict view"
      by blast
    from it i2 not_own have "it \<noteq> inst" by blast
    with it i1 i2 xit
    show "\<exists>it \<in> set (instance_rows w).
             map_of it ''user_id'' = Some (py_of_str_opt (user_id user)) \<and> it \<noteq> inst \<and>
             (\<exists>view. project it instance_view = Inr view \<and> x = PDict view)"
      by blast
  qed
qed

text \<open>
  Claim C2. The claim fails on the code for the owner and for an administrator, on the
  surface of \<^verbatim>\<open>src/lambda\<close>. \<^verbatim>\<open>start_model\<close> stores with every instance the number
  \<^verbatim>\<open>ttl\<close>, which the store returns as a \<^verbatim>\<open>Decimal\<close>; \<^verbatim>\<open>get_instance\<close> and
  \<^verbatim>\<open>list_instances\<close> of \<^verbatim>\<open>instances.py\<close> pass the stored item to \<^verbatim>\<open>json.dumps\<close>, which
  raises on it. So after the user \<^verbatim>\<open>bob\<close> has started an instance (201), the get of this
  instance by \<^verbatim>\<open>bob\<close>, its get by an administrator, and the list of \<^verbatim>\<open>bob\<close> are answered
  500: neither the owner nor an administrator can read the instance.
\<close>

theorem owner_cannot_read_started_instance_evaluation:
  "statusCode (fst (start_model
      (example_event ''POST'' ''/models/start'' ''bob'' [(''model_id'', PStr ''llama2:7b'')])
      (example_user ''bob'' []) (example_world ''dev'' 1 1))) = 201 \<and>
   lookup_instance (snd (start_model
      (example_event ''POST'' ''/models/start'' ''bob'' [(''model_id'', PStr ''llama2:7b'')])
      (example_user ''bob'' []) (example_world ''dev'' 1 1))) ''instance_id'' ''44444444-dddd'' =
     Inr (Some
       [(''instance_id'', PStr ''44444444-dddd''),
        (''model_id'', PStr ''llama2:7b''),
        (''user_id'', PStr ''bob''),
        (''service_name'', PStr ''ollama-44444444''),
        (''ecs_service_arn'', PStr ''arn:service/4''),
        (''target_group_arn'', PStr ''arn:targetgroup/4''),
        (''task_definition_arn'', PStr ''arn:task-definition/4''),
        (''status'', PStr ''starting''),
        (''instance_type'', PStr ''fargate''),
        (''endpoint_url'', PStr ''https://ollama-44444444.example.com''),
        (''custom_name'', PStr []),
        (''created_at'', PStr ''2024-06-01T12:00:00+00:00''),
        (''ttl'', PDecimal 1717329600)]) \<and>
   get_instance_inst ''44444444-dddd'' (example_user ''bob'' [])
     (snd (start_model
        (example_event ''POST'' ''/models/start'' ''bob'' [(''model_id'', PStr ''llama2:7b'')])
        (example_user ''bob'' []) (example_world ''dev'' 1 1))) =
     \<lparr>statusCode = 500, headers = response_headers,
      body = Some (PDict [(''error'', PStr ''Failed to retrieve instance'')])\<rparr> \<and>
   get_instance_inst ''44444444-dddd'' (example_user ''carol'' [''Administrators''])
     (snd (start_model
        (example_event ''POST'' ''/models/start'' ''bob'' [(''model_id'', PStr ''llama2:7b'')])
        (example_user ''bob'' []) (example_world ''dev'' 1 1))) =
     \<lparr>statusCode = 500, headers = response_headers,
      body = Some (PDict [(''error'', PStr ''Failed to retrieve instance'')])\<rparr> \<and>
   list_instances_inst (example_user ''bob'' [])
     (snd (start_model
        (example_event ''POST'' ''/models/start'' ''bob'' [(''model_id'', PStr ''llama2:7b'')])
        (example_user ''bob'' []) (example_world ''dev'' 1 1))) =
     \<lparr>statusCode = 500, headers = response_headers,
      body = Some (PDict [(''error'', PStr ''Failed to retrieve instances'')])\<rparr>"
  by code_simp

end
